theory Spec2Isabelle
  imports Complex_Main
begin

section \<open>JavaScript values and string primitives\<close>

text \<open>
  Answers and answer keys are untyped JSON in the source (\<^verbatim>\<open>any\<close>, Prisma \<^verbatim>\<open>Json\<close>).
  Strings are modelled as lists of 8-bit characters, read as the Latin-1 range of
  JavaScript's UTF-16 code units; JSON numbers are restricted to integers.
\<close>

datatype jsval =
    JUndefined
  | JNull
  | JBool bool
  | JNum int
  | JStr string
  | JArr "jsval list"
  | JObj "(string \<times> jsval) list"

text \<open>\<^verbatim>\<open>String.prototype.toLowerCase\<close> on the Latin-1 range: A-Z and the accented capitals
  0xC0-0xDE (except the multiplication sign 0xD7) move up by 0x20.\<close>

definition js_lower_char :: "char \<Rightarrow> char" where
  "js_lower_char c =
     (let n = (of_char c :: nat)
      in if (65 \<le> n \<and> n \<le> 90) \<or> (192 \<le> n \<and> n \<le> 222 \<and> n \<noteq> 215)
         then char_of (n + 32) else c)"

definition toLowerCase :: "string \<Rightarrow> string" where
  "toLowerCase s = map js_lower_char s"

text \<open>White space and line terminators of ECMAScript that fit in 8 bits: TAB, LF, VT, FF, CR,
  SP, NBSP. These are what \<^verbatim>\<open>trim\<close> strips and what \<^verbatim>\<open>\s\<close> matches.\<close>

definition js_space :: "char \<Rightarrow> bool" where
  "js_space c = ((of_char c :: nat) \<in> {9, 10, 11, 12, 13, 32, 160})"

definition trim :: "string \<Rightarrow> string" where
  "trim s = rev (dropWhile js_space (rev (dropWhile js_space s)))"

text \<open>Decimal rendering of an integer, as \<^verbatim>\<open>String(n)\<close> gives for integers of magnitude
  below \<open>10\<^sup>2\<^sup>1\<close>; from there on JavaScript prints exponent notation, which is not
  modelled.\<close>

fun digits_of :: "nat \<Rightarrow> string" where
  "digits_of n =
     (if n < 10 then [char_of (48 + n)]
      else digits_of (n div 10) @ [char_of (48 + n mod 10)])"

declare digits_of.simps [simp del]

definition int_to_string :: "int \<Rightarrow> string" where
  "int_to_string i = (if i < 0 then CHR ''-'' # digits_of (nat (- i)) else digits_of (nat i))"

fun join_comma :: "string list \<Rightarrow> string" where
  "join_comma [] = []"
| "join_comma [s] = s"
| "join_comma (s # t # ss) = s @ '','' @ join_comma (t # ss)"

text \<open>\<^verbatim>\<open>String(v)\<close>: primitives print themselves, an array joins its elements with commas
  (null and undefined elements print as the empty string), any other object prints as
  \<^verbatim>\<open>[object Object]\<close>. A JSON object with a member named \<^verbatim>\<open>toString\<close> or \<^verbatim>\<open>valueOf\<close>, on
  which \<^verbatim>\<open>String(v)\<close> throws a TypeError, is not modelled.\<close>

fun js_String :: "jsval \<Rightarrow> string" where
  "js_String JUndefined = ''undefined''"
| "js_String JNull = ''null''"
| "js_String (JBool b) = (if b then ''true'' else ''false'')"
| "js_String (JNum n) = int_to_string n"
| "js_String (JStr s) = s"
| "js_String (JArr xs) =
     join_comma (map (\<lambda>x. if x = JNull \<or> x = JUndefined then [] else js_String x) xs)"
| "js_String (JObj kvs) = ''[object Object]''"

text \<open>\<^verbatim>\<open>Array.prototype.includes\<close> compares with SameValueZero: primitives by value, objects
  and arrays by identity. A parsed request body never shares an object with a database
  row, so two arrays or two objects are never the same value here.\<close>

fun sameValueZero :: "jsval \<Rightarrow> jsval \<Rightarrow> bool" where
  "sameValueZero JUndefined JUndefined = True"
| "sameValueZero JNull JNull = True"
| "sameValueZero (JBool a) (JBool b) = (a = b)"
| "sameValueZero (JNum a) (JNum b) = (a = b)"
| "sameValueZero (JStr a) (JStr b) = (a = b)"
| "sameValueZero _ _ = False"

definition js_includes :: "jsval list \<Rightarrow> jsval \<Rightarrow> bool" where
  "js_includes xs v = list_ex (\<lambda>x. sameValueZero x v) xs"

section \<open>Objective grading: \<^verbatim>\<open>calculateBandScore\<close> and \<^verbatim>\<open>compareAnswers\<close>\<close>

text \<open>The percentage is a JavaScript number; the band thresholds and the bands are all exactly
  representable, so the function is modelled on rationals.\<close>

definition calculateBandScore :: "rat \<Rightarrow> rat" where
  "calculateBandScore percentage =
     (if percentage \<ge> 100 then 9
      else if percentage \<ge> 90 then 17 / 2
      else if percentage \<ge> 80 then 8
      else if percentage \<ge> 70 then 15 / 2
      else if percentage \<ge> 60 then 7
      else if percentage \<ge> 50 then 13 / 2
      else if percentage \<ge> 40 then 6
      else if percentage \<ge> 30 then 11 / 2
      else if percentage \<ge> 20 then 5
      else if percentage \<ge> 10 then 9 / 2
      else if percentage > 0 then 4
      else 0)"

text \<open>\<^verbatim>\<open>percentage = totalQuestions > 0 ? (correctCount / totalQuestions) * 100 : 0\<close>\<close>

definition percentage_of :: "nat \<Rightarrow> nat \<Rightarrow> rat" where
  "percentage_of correctCount totalQuestions =
     (if totalQuestions > 0 then (of_nat correctCount / of_nat totalQuestions) * 100 else 0)"

definition compareAnswers :: "jsval \<Rightarrow> jsval \<Rightarrow> bool" where
  "compareAnswers userAnswer correctAnswer =
     (if userAnswer = JNull \<or> userAnswer = JUndefined then False
      else case correctAnswer of
        JArr cs \<Rightarrow>
          (case userAnswer of
             JArr us \<Rightarrow>
               if length cs \<noteq> length us then False
               else list_all (\<lambda>val. js_includes us val) cs
           | _ \<Rightarrow> False)
      | JStr c \<Rightarrow> toLowerCase (trim (js_String userAnswer)) = toLowerCase (trim c)
      | JBool c \<Rightarrow>
          (case userAnswer of
             JBool u \<Rightarrow> u = c
           | JStr u \<Rightarrow> toLowerCase u = toLowerCase (js_String (JBool c))
           | _ \<Rightarrow> False)
      | _ \<Rightarrow> False)"


section \<open>The store\<close>

text \<open>
  The Prisma models the handlers touch, one list of rows per table. Only the columns the
  handlers read or write are kept. Credits and amounts are Prisma \<^verbatim>\<open>Int\<close> columns, modelled as
  unbounded integers.
\<close>

datatype tx_type = PURCHASE | USAGE | USAGE_FAIL | GRANT | REFUND
datatype exam_type = READING | LISTENING | WRITING | SPEAKING
datatype exam_status = IN_PROGRESS | COMPLETED | FAILED
datatype task_type = TASK_1 | TASK_2
datatype difficulty = A1 | A2 | B1 | B2 | C1 | C2 | MIXED

record user_row =
  u_id :: string
  u_email :: string
  u_role :: string
  u_credits :: int

record credit_transaction =
  ct_id :: string
  ct_userId :: string
  ct_amount :: int
  ct_type :: tx_type
  ct_stripePaymentIntentId :: "string option"
  ct_reason :: string

record reading_passage =
  rp_id :: string
  rp_title :: string
  rp_text :: string
  rp_level :: difficulty
  rp_isPublished :: bool

record reading_question =
  rq_id :: string
  rq_passageId :: string
  rq_type :: string
  rq_questionText :: string
  rq_options :: jsval
  rq_correctAnswer :: jsval
  rq_explanation :: "string option"
  rq_isPublished :: bool

record listening_audio =
  la_id :: string
  la_url :: string
  la_duration :: int
  la_isPublished :: bool

record listening_question =
  lq_id :: string
  lq_audioId :: string
  lq_type :: string
  lq_timestamp :: int
  lq_questionText :: string
  lq_options :: jsval
  lq_correctAnswer :: jsval
  lq_explanation :: "string option"
  lq_isPublished :: bool

record writing_prompt =
  wp_id :: string
  wp_taskType :: task_type
  wp_topic :: string
  wp_description :: string
  wp_imageUrl :: "string option"
  wp_timeLimit :: int
  wp_wordCount :: int
  wp_isPublished :: bool

record speaking_question =
  sq_id :: string
  sq_part :: int
  sq_cueCardText :: string
  sq_prepTime :: int
  sq_recordingTime :: int
  sq_followUpQuestions :: jsval
  sq_isPublished :: bool

text \<open>The exam payload built at start (answer keys stripped), one variant per exam type.
  Question views: reading \<open>(id, type, questionText, options, explanation)\<close>, listening
  \<open>(id, type, timestamp, questionText, options, explanation)\<close>, speaking
  \<open>(id, part, cueCardText, prepTime, recordingTime, followUpQuestions)\<close>.\<close>

type_synonym reading_view = "string \<times> string \<times> string \<times> jsval \<times> string option"
type_synonym listening_view = "string \<times> string \<times> int \<times> string \<times> jsval \<times> string option"
type_synonym speaking_view = "string \<times> int \<times> string \<times> int \<times> int \<times> jsval"

record prompt_view =
  pv_id :: string
  pv_taskType :: task_type
  pv_topic :: string
  pv_description :: string
  pv_imageUrl :: "string option"
  pv_timeLimit :: int
  pv_wordCount :: int

datatype exam_data =
    ReadingExam "string \<times> string \<times> string \<times> difficulty" "reading_view list" int
  | ListeningExam "string \<times> string \<times> int" "listening_view list" int
  | WritingExam prompt_view int
  | SpeakingExam "speaking_view list" int

text \<open>One graded answer: \<open>(questionId, userAnswer, correctAnswer, isCorrect, explanation)\<close>;
  the last three are absent or null for the subjectively graded types.\<close>

type_synonym answer_result = "string \<times> jsval \<times> jsval option \<times> bool option \<times> string option"

record writing_grading_result =
  wr_score :: rat
  wr_taskResponse :: rat
  wr_coherence :: rat
  wr_vocabulary :: rat
  wr_grammar :: rat
  wr_feedback :: string
  wr_improvedAnswerExample :: string

record grading_cost =
  gc_inputTokens :: nat
  gc_outputTokens :: nat
  gc_cost :: rat

datatype sub_scores =
    ObjectiveScores nat nat rat rat
  | WritingScores rat rat rat rat nat "int option"

record json_data =
  jd_exam :: exam_data
  jd_startTime :: string
  jd_answers :: "jsval option"
  jd_results :: "answer_result list option"
  jd_timeSpent :: "int option"
  jd_gradingResult :: "writing_grading_result option"
  jd_gradingCost :: "grading_cost option"
  jd_submittedAt :: "string option"

record exam_history =
  eh_id :: string
  eh_userId :: string
  eh_examType :: exam_type
  eh_status :: exam_status
  eh_score :: "rat option"
  eh_subScores :: "sub_scores option"
  eh_aiCost :: "rat option"
  eh_jsonData :: json_data

record db =
  db_user :: "user_row list"
  db_creditTransaction :: "credit_transaction list"
  db_examHistory :: "exam_history list"
  db_readingPassage :: "reading_passage list"
  db_readingQuestion :: "reading_question list"
  db_listeningAudio :: "listening_audio list"
  db_listeningQuestion :: "listening_question list"
  db_writingPrompt :: "writing_prompt list"
  db_speakingQuestion :: "speaking_question list"

section \<open>Errors, collaborators and requests\<close>

text \<open>Every value thrown in these handlers is an instance of \<^verbatim>\<open>Error\<close>; only its message is
  ever inspected.\<close>

datatype js_error = Error string

fun message :: "js_error \<Rightarrow> string" where
  "message (Error m) = m"

text \<open>\<^verbatim>\<open>haystack.includes(needle)\<close> and \<^verbatim>\<open>s.startsWith(p)\<close> on strings.\<close>

fun startsWith :: "string \<Rightarrow> string \<Rightarrow> bool" where
  "startsWith s [] = True"
| "startsWith [] (p # ps) = False"
| "startsWith (c # cs) (p # ps) = (c = p \<and> startsWith cs ps)"

fun str_includes :: "string \<Rightarrow> string \<Rightarrow> bool" where
  "str_includes [] needle = (needle = [])"
| "str_includes (c # cs) needle = (startsWith (c # cs) needle \<or> str_includes cs needle)"

text \<open>
  What the handlers receive from outside the repository, as explicit inputs:
  \<^item> \<open>verifyAccessToken\<close>: the user id in the token's payload, or nothing for a bad token;
  \<^item> \<open>now\<close>: \<^verbatim>\<open>new Date().toISOString()\<close>;
  \<^item> \<open>random\<close>: the successive results of \<^verbatim>\<open>Math.random()\<close> within one request;
  \<^item> \<open>cuid\<close>: the ids the store generates for the rows created within one request;
  \<^item> \<open>stripe_refunds_create\<close>: the processor's reversal, giving the refund id or throwing;
  \<^item> \<open>gradeWritingEssay\<close>: what the language-model grading returns for
    \<open>(taskType, prompt, userText, timeSpent)\<close>, nothing when \<^verbatim>\<open>gradeWritingEssay\<close> throws;
  \<^item> \<open>refUnique\<close>: whether the schema puts a unique index on
    \<^verbatim>\<open>CreditTransaction.stripePaymentIntentId\<close> that \<^verbatim>\<open>create\<close> enforces. The Prisma schema is
    not among the sources. The webhook looks entries up with \<^verbatim>\<open>findUnique\<close> on this column,
    which Prisma accepts only for a unique column, so \<open>True\<close> is the schema the code runs
    on; the lookups below are modelled alike for both values, and \<open>False\<close> is kept so that
    what is proved for every \<open>env\<close> does not rest on the index.
\<close>

record env =
  verifyAccessToken :: "string \<Rightarrow> string option"
  now :: string
  random :: "nat \<Rightarrow> rat"
  cuid :: "nat \<Rightarrow> string"
  stripe_refunds_create :: "string \<Rightarrow> string option"
  gradeWritingEssay ::
    "task_type \<Rightarrow> string \<Rightarrow> string \<Rightarrow> int option \<Rightarrow> (writing_grading_result \<times> grading_cost) option"
  refUnique :: bool

text \<open>A request body: \<^verbatim>\<open>request.json()\<close> throws a SyntaxError with some message, or the zod
  schema rejects the shape, or the fields arrive with the right types (constraints on
  their values are checked by each schema below).\<close>

datatype 'a parsed = JsonThrows string | BadShape | Fields 'a

datatype response_body =
    ErrorBody string
  | ValidationFailed
  | Received
  | MessageBody string
  | ExamStarted exam_data string
  | ExamSubmitted "rat option" "sub_scores option" exam_type string
  | WritingGraded rat sub_scores string string grading_cost string
  | RefundProcessed string string int string

type_synonym response = "nat \<times> response_body"

text \<open>The shared prologue of the authenticated handlers: the Authorization header must be
  present and start with \<^verbatim>\<open>Bearer \<close>; the token is what follows the 7th character.\<close>

definition bearer_token :: "string option \<Rightarrow> string option" where
  "bearer_token authHeader =
     (case authHeader of
        None \<Rightarrow> None
      | Some h \<Rightarrow> if h = [] \<or> \<not> startsWith h ''Bearer '' then None else Some (drop 7 h))"

section \<open>Store operations\<close>

definition user_findUnique :: "db \<Rightarrow> string \<Rightarrow> user_row option" where
  "user_findUnique d uid = find (\<lambda>u. u_id u = uid) (db_user d)"

text \<open>\<^verbatim>\<open>user.update({ where: { id }, data })\<close> throws when no row has the id.\<close>

definition user_update :: "string \<Rightarrow> (user_row \<Rightarrow> user_row) \<Rightarrow> db \<Rightarrow> js_error + db" where
  "user_update uid f d =
     (if user_findUnique d uid = None then Inl (Error ''Record to update not found.'')
      else Inr (d\<lparr>db_user := map (\<lambda>u. if u_id u = uid then f u else u) (db_user d)\<rparr>))"

definition increment_credits :: "int \<Rightarrow> user_row \<Rightarrow> user_row" where
  "increment_credits n u = u\<lparr>u_credits := u_credits u + n\<rparr>"

definition decrement_credits :: "int \<Rightarrow> user_row \<Rightarrow> user_row" where
  "decrement_credits n u = u\<lparr>u_credits := u_credits u - n\<rparr>"

definition ref_taken :: "db \<Rightarrow> string option \<Rightarrow> bool" where
  "ref_taken d r =
     (case r of
        None \<Rightarrow> False
      | Some p \<Rightarrow> list_ex (\<lambda>t. ct_stripePaymentIntentId t = Some p) (db_creditTransaction d))"

text \<open>\<^verbatim>\<open>creditTransaction.create\<close>: the owner must exist (foreign key), and under a unique
  index the payment reference must be new.\<close>

definition creditTransaction_create :: "env \<Rightarrow> credit_transaction \<Rightarrow> db \<Rightarrow> js_error + db" where
  "creditTransaction_create e row d =
     (if user_findUnique d (ct_userId row) = None
      then Inl (Error ''Foreign key constraint failed'')
      else if refUnique e \<and> ref_taken d (ct_stripePaymentIntentId row)
      then Inl (Error ''Unique constraint failed'')
      else Inr (d\<lparr>db_creditTransaction := db_creditTransaction d @ [row]\<rparr>))"

definition creditTransaction_findUnique_ref :: "db \<Rightarrow> string \<Rightarrow> credit_transaction option" where
  "creditTransaction_findUnique_ref d p =
     find (\<lambda>t. ct_stripePaymentIntentId t = Some p) (db_creditTransaction d)"

definition creditTransaction_findUnique_id :: "db \<Rightarrow> string \<Rightarrow> credit_transaction option" where
  "creditTransaction_findUnique_id d i = find (\<lambda>t. ct_id t = i) (db_creditTransaction d)"

definition creditTransaction_findFirst :: "db \<Rightarrow> string option \<Rightarrow> tx_type \<Rightarrow> credit_transaction option" where
  "creditTransaction_findFirst d r ty =
     find (\<lambda>t. ct_stripePaymentIntentId t = r \<and> ct_type t = ty) (db_creditTransaction d)"

definition creditTransaction_update_reason :: "string \<Rightarrow> string \<Rightarrow> db \<Rightarrow> js_error + db" where
  "creditTransaction_update_reason i r d =
     (if creditTransaction_findUnique_id d i = None then Inl (Error ''Record to update not found.'')
      else Inr (d\<lparr>db_creditTransaction :=
                   map (\<lambda>t. if ct_id t = i then t\<lparr>ct_reason := r\<rparr> else t) (db_creditTransaction d)\<rparr>))"

definition examHistory_findUnique :: "db \<Rightarrow> string \<Rightarrow> exam_history option" where
  "examHistory_findUnique d i = find (\<lambda>h. eh_id h = i) (db_examHistory d)"

definition examHistory_create :: "exam_history \<Rightarrow> db \<Rightarrow> js_error + db" where
  "examHistory_create row d =
     (if user_findUnique d (eh_userId row) = None
      then Inl (Error ''Foreign key constraint failed'')
      else Inr (d\<lparr>db_examHistory := db_examHistory d @ [row]\<rparr>))"

definition examHistory_update :: "string \<Rightarrow> (exam_history \<Rightarrow> exam_history) \<Rightarrow> db \<Rightarrow> js_error + db" where
  "examHistory_update i f d =
     (if examHistory_findUnique d i = None then Inl (Error ''Record to update not found.'')
      else Inr (d\<lparr>db_examHistory := map (\<lambda>h. if eh_id h = i then f h else h) (db_examHistory d)\<rparr>))"

text \<open>\<^verbatim>\<open>db.$transaction(async (tx) => ...)\<close>: Prisma's interactive transaction. When the callback
  throws, every write made through \<^verbatim>\<open>tx\<close> is rolled back and the error is rethrown;
  otherwise the writes are committed together.\<close>

definition transaction :: "(db \<Rightarrow> js_error + ('a \<times> db)) \<Rightarrow> db \<Rightarrow> (js_error + 'a) \<times> db" where
  "transaction callback d =
     (case callback d of
        Inl err \<Rightarrow> (Inl err, d)
      | Inr (r, d') \<Rightarrow> (Inr r, d'))"

subsection \<open>The ledger and the cached balance\<close>

definition ledger_sum :: "db \<Rightarrow> string \<Rightarrow> int" where
  "ledger_sum d uid =
     sum_list (map ct_amount (filter (\<lambda>t. ct_userId t = uid) (db_creditTransaction d)))"

definition balance_invariant :: "db \<Rightarrow> bool" where
  "balance_invariant d = list_all (\<lambda>u. u_credits u = ledger_sum d (u_id u)) (db_user d)"

definition credits_of :: "db \<Rightarrow> string \<Rightarrow> int option" where
  "credits_of d uid = map_option u_credits (user_findUnique d uid)"

section \<open>Starting an exam\<close>

definition exam_type_name :: "exam_type \<Rightarrow> string" where
  "exam_type_name ty =
     (case ty of READING \<Rightarrow> ''READING'' | LISTENING \<Rightarrow> ''LISTENING''
      | WRITING \<Rightarrow> ''WRITING'' | SPEAKING \<Rightarrow> ''SPEAKING'')"

text \<open>\<^verbatim>\<open>arr[Math.floor(Math.random() * arr.length)]\<close>; outside the array the read gives
  \<^verbatim>\<open>undefined\<close>.\<close>

definition pick_random :: "rat \<Rightarrow> 'a list \<Rightarrow> 'a option" where
  "pick_random r xs =
     (let i = \<lfloor>r * of_nat (length xs)\<rfloor>
      in if 0 \<le> i \<and> i < int (length xs) then Some (xs ! nat i) else None)"

definition reading_view_of :: "reading_question \<Rightarrow> reading_view" where
  "reading_view_of q = (rq_id q, rq_type q, rq_questionText q, rq_options q, rq_explanation q)"

definition listening_view_of :: "listening_question \<Rightarrow> listening_view" where
  "listening_view_of q =
     (lq_id q, lq_type q, lq_timestamp q, lq_questionText q, lq_options q, lq_explanation q)"

definition speaking_view_of :: "speaking_question \<Rightarrow> speaking_view" where
  "speaking_view_of q =
     (sq_id q, sq_part q, sq_cueCardText q, sq_prepTime q, sq_recordingTime q,
      sq_followUpQuestions q)"

definition prompt_view_of :: "writing_prompt \<Rightarrow> prompt_view" where
  "prompt_view_of p =
     \<lparr>pv_id = wp_id p, pv_taskType = wp_taskType p, pv_topic = wp_topic p,
      pv_description = wp_description p, pv_imageUrl = wp_imageUrl p,
      pv_timeLimit = wp_timeLimit p, pv_wordCount = wp_wordCount p\<rparr>"

definition undefined_read :: js_error where
  "undefined_read = Error ''Cannot read properties of undefined''"

definition published_passages :: "difficulty \<Rightarrow> db \<Rightarrow> reading_passage list" where
  "published_passages difficulty d =
     filter (\<lambda>p. rp_isPublished p \<and> (difficulty = MIXED \<or> rp_level p = difficulty))
       (db_readingPassage d)"

definition published_audio :: "db \<Rightarrow> listening_audio list" where
  "published_audio d = filter la_isPublished (db_listeningAudio d)"

definition published_prompts :: "db \<Rightarrow> writing_prompt list" where
  "published_prompts d = filter wp_isPublished (db_writingPrompt d)"

definition published_speaking :: "int \<Rightarrow> db \<Rightarrow> speaking_question list" where
  "published_speaking part d =
     filter (\<lambda>q. sq_part q = part \<and> sq_isPublished q) (db_speakingQuestion d)"

text \<open>The content selection inside the start transaction, one branch per exam type; the
  \<^verbatim>\<open>throw new Error('No published ...')\<close> of each branch is the \<open>Inl\<close> result.\<close>

definition select_content :: "env \<Rightarrow> exam_type \<Rightarrow> difficulty \<Rightarrow> db \<Rightarrow> js_error + exam_data" where
  "select_content e ty difficulty d =
     (case ty of
        READING \<Rightarrow>
          (let passages = published_passages difficulty d
           in if length passages = 0
              then Inl (Error ''No published reading passages available'')
              else case pick_random (random e 0) passages of
                     None \<Rightarrow> Inl undefined_read
                   | Some sel \<Rightarrow>
                       Inr (ReadingExam (rp_id sel, rp_title sel, rp_text sel, rp_level sel)
                              (map reading_view_of
                                 (filter (\<lambda>q. rq_passageId q = rp_id sel \<and> rq_isPublished q)
                                    (db_readingQuestion d)))
                              60))
      | LISTENING \<Rightarrow>
          (let audioFiles = published_audio d
           in if length audioFiles = 0
              then Inl (Error ''No published listening audio available'')
              else case pick_random (random e 0) audioFiles of
                     None \<Rightarrow> Inl undefined_read
                   | Some sel \<Rightarrow>
                       Inr (ListeningExam (la_id sel, la_url sel, la_duration sel)
                              (map listening_view_of
                                 (sort_key lq_timestamp
                                    (filter (\<lambda>q. lq_audioId q = la_id sel \<and> lq_isPublished q)
                                       (db_listeningQuestion d))))
                              40))
      | WRITING \<Rightarrow>
          (let prompts = published_prompts d
           in if length prompts = 0
              then Inl (Error ''No published writing prompts available'')
              else case pick_random (random e 0) prompts of
                     None \<Rightarrow> Inl undefined_read
                   | Some sel \<Rightarrow> Inr (WritingExam (prompt_view_of sel) (wp_timeLimit sel)))
      | SPEAKING \<Rightarrow>
          (let part1Questions = published_speaking 1 d;
               part2Questions = published_speaking 2 d;
               part3Questions = published_speaking 3 d
           in if length part1Questions = 0 \<or> length part2Questions = 0
                 \<or> length part3Questions = 0
              then Inl (Error ''No published speaking questions available for all parts'')
              else case (pick_random (random e 0) part1Questions,
                         pick_random (random e 1) part2Questions,
                         pick_random (random e 2) part3Questions) of
                     (Some q1, Some q2, Some q3) \<Rightarrow>
                       Inr (SpeakingExam (map speaking_view_of [q1, q2, q3]) 15)
                   | _ \<Rightarrow> Inl undefined_read))"

text \<open>The body of the start transaction: deduct one credit, append the USAGE entry, select
  the content, create the session row. Rows created here get \<open>cuid e 0\<close> and \<open>cuid e 1\<close>.\<close>

definition startExam_tx ::
  "env \<Rightarrow> user_row \<Rightarrow> exam_type \<Rightarrow> difficulty \<Rightarrow> db \<Rightarrow> js_error + ((exam_data \<times> string) \<times> db)" where
  "startExam_tx e user ty difficulty d =
     (case user_update (u_id user) (decrement_credits 1) d of
        Inl err \<Rightarrow> Inl err
      | Inr d1 \<Rightarrow>
     (case creditTransaction_create e
             \<lparr>ct_id = cuid e 0, ct_userId = u_id user, ct_amount = - 1, ct_type = USAGE,
              ct_stripePaymentIntentId = None,
              ct_reason = ''Started '' @ exam_type_name ty @ '' exam''\<rparr> d1 of
        Inl err \<Rightarrow> Inl err
      | Inr d2 \<Rightarrow>
     (case select_content e ty difficulty d2 of
        Inl err \<Rightarrow> Inl err
      | Inr examData \<Rightarrow>
     (case examHistory_create
             \<lparr>eh_id = cuid e 1, eh_userId = u_id user, eh_examType = ty,
              eh_status = IN_PROGRESS, eh_score = None, eh_subScores = None, eh_aiCost = None,
              eh_jsonData =
                \<lparr>jd_exam = examData, jd_startTime = now e, jd_answers = None,
                 jd_results = None, jd_timeSpent = None, jd_gradingResult = None,
                 jd_gradingCost = None, jd_submittedAt = None\<rparr>\<rparr> d2 of
        Inl err \<Rightarrow> Inl err
      | Inr d3 \<Rightarrow> Inr ((examData, cuid e 1), d3)))))"

text \<open>The inner \<^verbatim>\<open>try\<close> of the handler's \<^verbatim>\<open>catch\<close>: two separate writes, not a transaction; a
  failure of either is logged and swallowed. The row created here gets \<open>cuid e 2\<close>.\<close>

definition restore_credit :: "env \<Rightarrow> string \<Rightarrow> db \<Rightarrow> db" where
  "restore_credit e uid d =
     (case user_update uid (increment_credits 1) d of
        Inl err \<Rightarrow> d
      | Inr d1 \<Rightarrow>
          (case creditTransaction_create e
                  \<lparr>ct_id = cuid e 2, ct_userId = uid, ct_amount = 1, ct_type = USAGE_FAIL,
                   ct_stripePaymentIntentId = None,
                   ct_reason = ''Credit restored - no published content available''\<rparr> d1 of
             Inl err \<Rightarrow> d1
           | Inr d2 \<Rightarrow> d2))"

text \<open>The handler's \<^verbatim>\<open>catch\<close>: the token is verified again; with a valid token and an error
  whose message contains \<^verbatim>\<open>No published\<close> the credit is restored and 503 returned.\<close>

definition startExam_catch :: "env \<Rightarrow> string option \<Rightarrow> js_error \<Rightarrow> db \<Rightarrow> response \<times> db" where
  "startExam_catch e authHeader err d =
     (let accessToken = (case authHeader of None \<Rightarrow> [] | Some h \<Rightarrow> drop 7 h)
      in case verifyAccessToken e accessToken of
           Some userId \<Rightarrow>
             if str_includes (message err) ''No published''
             then ((503, ErrorBody (message err)), restore_credit e userId d)
             else ((500, ErrorBody ''Internal server error''), d)
         | None \<Rightarrow> ((500, ErrorBody ''Internal server error''), d))"

text \<open>The exam-start handler (\<^verbatim>\<open>POST\<close>). The body carries the exam type and the difficulty (\<open>MIXED\<close> when
  absent).\<close>

definition startExam ::
  "env \<Rightarrow> string option \<Rightarrow> (exam_type \<times> difficulty) parsed \<Rightarrow> db \<Rightarrow> response \<times> db" where
  "startExam e authHeader body d =
     (case bearer_token authHeader of
        None \<Rightarrow> ((401, ErrorBody ''Authorization header required''), d)
      | Some accessToken \<Rightarrow>
     (case verifyAccessToken e accessToken of
        None \<Rightarrow> ((401, ErrorBody ''Invalid or expired access token''), d)
      | Some userId \<Rightarrow>
     (case body of
        JsonThrows m \<Rightarrow> startExam_catch e authHeader (Error m) d
      | BadShape \<Rightarrow> ((400, ValidationFailed), d)
      | Fields (ty, difficulty) \<Rightarrow>
     (case user_findUnique d userId of
        None \<Rightarrow> ((404, ErrorBody ''User not found''), d)
      | Some user \<Rightarrow>
          if u_credits user < 1
          then ((402, ErrorBody
                  ''Insufficient credits. Please purchase more credits to take an exam.''), d)
          else (case transaction (startExam_tx e user ty difficulty) d of
                  (Inl err, d') \<Rightarrow> startExam_catch e authHeader err d'
                | (Inr (examData, examId), d') \<Rightarrow> ((201, ExamStarted examData examId), d'))))))"

section \<open>Payment reconciliation (Stripe webhook)\<close>

record credit_pack =
  cp_id :: string
  cp_name :: string
  cp_description :: string
  cp_price :: rat
  cp_credits :: int

definition CREDIT_PACKS :: "credit_pack list" where
  "CREDIT_PACKS =
     [\<lparr>cp_id = ''pack_a'', cp_name = ''Pack A - Starter'',
       cp_description = ''2 Credits for casual learners'', cp_price = 999 / 100, cp_credits = 2\<rparr>,
      \<lparr>cp_id = ''pack_b'', cp_name = ''Pack B - Standard'',
       cp_description = ''5 Credits for dedicated learners'', cp_price = 1999 / 100, cp_credits = 5\<rparr>,
      \<lparr>cp_id = ''pack_c'', cp_name = ''Pack C - Premium'',
       cp_description = ''15 Credits for serious learners'', cp_price = 4499 / 100, cp_credits = 15\<rparr>]"

text \<open>\<^verbatim>\<open>CREDIT_PACKS[packId] || null\<close> is a plain property read, so a pack id that names a
  property inherited from \<^verbatim>\<open>Object.prototype\<close> yields a truthy value that is no pack and has
  no \<^verbatim>\<open>credits\<close>.\<close>

datatype pack_lookup = OwnPack credit_pack | InheritedProperty | NoPack

definition object_prototype_keys :: "string list" where
  "object_prototype_keys =
     [''constructor'', ''toString'', ''toLocaleString'', ''valueOf'', ''hasOwnProperty'',
      ''isPrototypeOf'', ''propertyIsEnumerable'', ''__proto__'', ''__defineGetter__'',
      ''__defineSetter__'', ''__lookupGetter__'', ''__lookupSetter__'']"

definition getCreditPackById :: "string \<Rightarrow> pack_lookup" where
  "getCreditPackById packId =
     (case find (\<lambda>p. cp_id p = packId) CREDIT_PACKS of
        Some p \<Rightarrow> OwnPack p
      | None \<Rightarrow> if packId \<in> set object_prototype_keys then InheritedProperty else NoPack)"

text \<open>The checkout session of the event: \<^verbatim>\<open>metadata?.userId\<close>, \<^verbatim>\<open>metadata?.packId\<close> and
  \<^verbatim>\<open>payment_intent\<close>, each possibly missing.\<close>

record checkout_session =
  cs_id :: string
  cs_userId :: "string option"
  cs_packId :: "string option"
  cs_payment_intent :: "string option"

record stripe_event =
  ev_id :: string
  ev_type :: string
  ev_session :: checkout_session

text \<open>JavaScript truthiness of an optional string: present and not empty.\<close>

definition truthy :: "string option \<Rightarrow> string option" where
  "truthy s = (case s of None \<Rightarrow> None | Some v \<Rightarrow> if v = [] then None else Some v)"

definition purchase_tx :: "env \<Rightarrow> string \<Rightarrow> string \<Rightarrow> credit_pack \<Rightarrow> db \<Rightarrow> js_error + (unit \<times> db)" where
  "purchase_tx e userId paymentIntentId creditPack d =
     (case user_update userId (increment_credits (cp_credits creditPack)) d of
        Inl err \<Rightarrow> Inl err
      | Inr d1 \<Rightarrow>
     (case creditTransaction_create e
             \<lparr>ct_id = cuid e 0, ct_userId = userId, ct_amount = cp_credits creditPack,
              ct_type = PURCHASE, ct_stripePaymentIntentId = Some paymentIntentId,
              ct_reason = ''Purchased '' @ cp_name creditPack\<rparr> d1 of
        Inl err \<Rightarrow> Inl err
      | Inr d2 \<Rightarrow> Inr ((), d2)))"

text \<open>\<^verbatim>\<open>handleCheckoutSessionCompleted\<close>: returns normally (\<open>Inr ()\<close>) or throws.\<close>

definition handleCheckoutSessionCompleted ::
  "env \<Rightarrow> checkout_session \<Rightarrow> string \<Rightarrow> db \<Rightarrow> (js_error + unit) \<times> db" where
  "handleCheckoutSessionCompleted e session eventId d =
     (case (truthy (cs_userId session), truthy (cs_packId session),
            truthy (cs_payment_intent session)) of
        (Some userId, Some packId, Some paymentIntentId) \<Rightarrow>
          (case creditTransaction_findUnique_ref d paymentIntentId of
             Some existingTransaction \<Rightarrow> (Inr (), d)
           | None \<Rightarrow>
               (case getCreditPackById packId of
                  NoPack \<Rightarrow> (Inr (), d)
                | InheritedProperty \<Rightarrow>
                    transaction (\<lambda>d0. Inl (Error ''Argument amount is missing'')) d
                | OwnPack creditPack \<Rightarrow>
                    transaction (purchase_tx e userId paymentIntentId creditPack) d))
      | _ \<Rightarrow> (Inr (), d))"

text \<open>The webhook handler (\<^verbatim>\<open>POST\<close>). Its first argument is what \<^verbatim>\<open>getStripeWebhookEvent\<close>
  returned: the verified event, or an error message.\<close>

definition stripe_webhook ::
  "env \<Rightarrow> stripe_event option \<times> string option \<Rightarrow> db \<Rightarrow> response \<times> db" where
  "stripe_webhook e verified d =
     (case truthy (snd verified) of
        Some err \<Rightarrow> ((400, ErrorBody ''Webhook verification failed''), d)
      | None \<Rightarrow>
     (case fst verified of
        None \<Rightarrow> ((400, ErrorBody ''No event received''), d)
      | Some event \<Rightarrow>
          if ev_type event = ''checkout.session.completed''
          then (case handleCheckoutSessionCompleted e (ev_session event) (ev_id event) d of
                  (Inl thrown, d') \<Rightarrow> ((500, ErrorBody ''Internal server error''), d')
                | (Inr u, d') \<Rightarrow> ((200, Received), d'))
          else ((200, Received), d)))"

section \<open>Refund of a purchase\<close>

text \<open>The effects of one refund request that leave the process or commit to the store, in
  the order they happen.\<close>

datatype effect = StripeRefund string | Commit

definition refund_tx :: "env \<Rightarrow> credit_transaction \<Rightarrow> string \<Rightarrow> db \<Rightarrow> js_error + (unit \<times> db)" where
  "refund_tx e tx refundId d =
     (case user_update (ct_userId tx) (decrement_credits (ct_amount tx)) d of
        Inl err \<Rightarrow> Inl err
      | Inr d1 \<Rightarrow>
     (case creditTransaction_update_reason (ct_id tx) (ct_reason tx @ '' - REFUNDED'') d1 of
        Inl err \<Rightarrow> Inl err
      | Inr d2 \<Rightarrow>
     (case creditTransaction_create e
             \<lparr>ct_id = cuid e 0, ct_userId = ct_userId tx, ct_amount = - ct_amount tx,
              ct_type = REFUND, ct_stripePaymentIntentId = ct_stripePaymentIntentId tx,
              ct_reason = ''Refund of '' @ ct_reason tx @ ''. Refund ID: '' @ refundId\<rparr> d2 of
        Inl err \<Rightarrow> Inl err
      | Inr d3 \<Rightarrow> Inr ((), d3))))"

text \<open>The refund handler (\<^verbatim>\<open>POST\<close> with the transaction id as route parameter).\<close>

definition refund :: "env \<Rightarrow> string option \<Rightarrow> string \<Rightarrow> db \<Rightarrow> response \<times> db \<times> effect list" where
  "refund e authHeader transactionId d =
     (case bearer_token authHeader of
        None \<Rightarrow> ((401, ErrorBody ''Authorization header required''), d, [])
      | Some accessToken \<Rightarrow>
     (case verifyAccessToken e accessToken of
        None \<Rightarrow> ((401, ErrorBody ''Invalid or expired access token''), d, [])
      | Some adminId \<Rightarrow>
     (case user_findUnique d adminId of
        None \<Rightarrow> ((403, ErrorBody ''Forbidden: Admin access required''), d, [])
      | Some adminUser \<Rightarrow>
          if u_role adminUser \<noteq> ''ADMIN''
          then ((403, ErrorBody ''Forbidden: Admin access required''), d, [])
          else if transactionId = []
          then ((400, ErrorBody ''Transaction ID is required''), d, [])
          else
     (case creditTransaction_findUnique_id d transactionId of
        None \<Rightarrow> ((404, ErrorBody ''Transaction not found''), d, [])
      | Some tx \<Rightarrow>
          if ct_type tx \<noteq> PURCHASE
          then ((400, ErrorBody ''Only PURCHASE transactions can be refunded''), d, [])
          else
     (case truthy (ct_stripePaymentIntentId tx) of
        None \<Rightarrow>
          ((400, ErrorBody ''Transaction does not have a valid Stripe payment intent''), d, [])
      | Some paymentIntent \<Rightarrow>
     (case creditTransaction_findFirst d (Some paymentIntent) REFUND of
        Some existingRefund \<Rightarrow>
          ((400, ErrorBody ''Transaction has already been refunded''), d, [])
      | None \<Rightarrow>
     (case stripe_refunds_create e paymentIntent of
        None \<Rightarrow>
          ((500, ErrorBody ''Failed to process Stripe refund''), d, [StripeRefund paymentIntent])
      | Some refundId \<Rightarrow>
     (case transaction (refund_tx e tx refundId) d of
        (Inl err, d') \<Rightarrow>
          ((500, ErrorBody ''Internal server error''), d', [StripeRefund paymentIntent])
      | (Inr u, d') \<Rightarrow>
          ((200, RefundProcessed refundId transactionId (ct_amount tx) (ct_userId tx)), d',
           [StripeRefund paymentIntent, Commit])))))))))"

section \<open>Admin user management\<close>

text \<open>\<^verbatim>\<open>verifyAdminAccess\<close>: the admin's user row, or nothing.\<close>

definition verifyAdminAccess :: "env \<Rightarrow> string option \<Rightarrow> db \<Rightarrow> user_row option" where
  "verifyAdminAccess e authHeader d =
     (case bearer_token authHeader of
        None \<Rightarrow> None
      | Some accessToken \<Rightarrow>
     (case verifyAccessToken e accessToken of
        None \<Rightarrow> None
      | Some userId \<Rightarrow>
     (case user_findUnique d userId of
        None \<Rightarrow> None
      | Some user \<Rightarrow> if u_role user \<noteq> ''ADMIN'' then None else Some user)))"

text \<open>\<^verbatim>\<open>grantCreditsSchema\<close> and \<^verbatim>\<open>revokeCreditsSchema\<close> on \<open>(userId, amount, reason)\<close>.\<close>

definition creditsSchema :: "string \<times> int \<times> string \<Rightarrow> bool" where
  "creditsSchema b = (case b of (userId, amount, reason) \<Rightarrow>
     length userId \<ge> 1 \<and> amount \<ge> 1 \<and> amount \<le> 1000 \<and> length reason \<ge> 1)"

definition grant_tx :: "env \<Rightarrow> string \<Rightarrow> int \<Rightarrow> string \<Rightarrow> db \<Rightarrow> js_error + (unit \<times> db)" where
  "grant_tx e userId amount reason d =
     (case user_update userId (increment_credits amount) d of
        Inl err \<Rightarrow> Inl err
      | Inr d1 \<Rightarrow>
     (case creditTransaction_create e
             \<lparr>ct_id = cuid e 0, ct_userId = userId, ct_amount = amount, ct_type = GRANT,
              ct_stripePaymentIntentId = None, ct_reason = reason\<rparr> d1 of
        Inl err \<Rightarrow> Inl err
      | Inr d2 \<Rightarrow> Inr ((), d2)))"

definition grantCredits ::
  "env \<Rightarrow> string option \<Rightarrow> (string \<times> int \<times> string) parsed \<Rightarrow> db \<Rightarrow> response \<times> db" where
  "grantCredits e authHeader body d =
     (case verifyAdminAccess e authHeader d of
        None \<Rightarrow> ((401, ErrorBody ''Unauthorized''), d)
      | Some admin \<Rightarrow>
     (case body of
        JsonThrows m \<Rightarrow> ((500, ErrorBody ''Internal server error''), d)
      | BadShape \<Rightarrow> ((400, ValidationFailed), d)
      | Fields (userId, amount, reason) \<Rightarrow>
          if \<not> creditsSchema (userId, amount, reason) then ((400, ValidationFailed), d)
          else
     (case user_findUnique d userId of
        None \<Rightarrow> ((404, ErrorBody ''User not found''), d)
      | Some user \<Rightarrow>
     (case transaction (grant_tx e userId amount reason) d of
        (Inl err, d') \<Rightarrow> ((500, ErrorBody ''Internal server error''), d')
      | (Inr u, d') \<Rightarrow> ((201, MessageBody ''Credits granted successfully''), d')))))"

definition revoke_tx :: "env \<Rightarrow> string \<Rightarrow> int \<Rightarrow> string \<Rightarrow> db \<Rightarrow> js_error + (unit \<times> db)" where
  "revoke_tx e userId amount reason d =
     (case user_update userId (decrement_credits amount) d of
        Inl err \<Rightarrow> Inl err
      | Inr d1 \<Rightarrow>
     (case creditTransaction_create e
             \<lparr>ct_id = cuid e 0, ct_userId = userId, ct_amount = - amount, ct_type = REFUND,
              ct_stripePaymentIntentId = None, ct_reason = reason\<rparr> d1 of
        Inl err \<Rightarrow> Inl err
      | Inr d2 \<Rightarrow> Inr ((), d2)))"

definition revokeCredits ::
  "env \<Rightarrow> string option \<Rightarrow> (string \<times> int \<times> string) parsed \<Rightarrow> db \<Rightarrow> response \<times> db" where
  "revokeCredits e authHeader body d =
     (case verifyAdminAccess e authHeader d of
        None \<Rightarrow> ((401, ErrorBody ''Unauthorized''), d)
      | Some admin \<Rightarrow>
     (case body of
        JsonThrows m \<Rightarrow> ((500, ErrorBody ''Internal server error''), d)
      | BadShape \<Rightarrow> ((400, ValidationFailed), d)
      | Fields (userId, amount, reason) \<Rightarrow>
          if \<not> creditsSchema (userId, amount, reason) then ((400, ValidationFailed), d)
          else
     (case user_findUnique d userId of
        None \<Rightarrow> ((404, ErrorBody ''User not found''), d)
      | Some user \<Rightarrow>
          if u_credits user < amount
          then ((400, ErrorBody ''Insufficient credits to revoke''), d)
          else
     (case transaction (revoke_tx e userId amount reason) d of
        (Inl err, d') \<Rightarrow> ((500, ErrorBody ''Internal server error''), d')
      | (Inr u, d') \<Rightarrow> ((201, MessageBody ''Credits revoked successfully''), d')))))"

text \<open>\<^verbatim>\<open>toggleAccountSchema\<close> on \<open>(userId, disabled)\<close>, and the toggle handler. Its
  \<^verbatim>\<open>user.update\<close> is called with an empty \<^verbatim>\<open>data\<close> object: the update function is the
  identity.\<close>

definition toggleAccountSchema :: "string \<times> bool \<Rightarrow> bool" where
  "toggleAccountSchema b = (length (fst b) \<ge> 1)"

definition toggleAccount ::
  "env \<Rightarrow> string option \<Rightarrow> (string \<times> bool) parsed \<Rightarrow> db \<Rightarrow> response \<times> db" where
  "toggleAccount e authHeader body d =
     (case verifyAdminAccess e authHeader d of
        None \<Rightarrow> ((401, ErrorBody ''Unauthorized''), d)
      | Some admin \<Rightarrow>
     (case body of
        JsonThrows m \<Rightarrow> ((500, ErrorBody ''Internal server error''), d)
      | BadShape \<Rightarrow> ((400, ValidationFailed), d)
      | Fields (userId, disabled) \<Rightarrow>
          if \<not> toggleAccountSchema (userId, disabled) then ((400, ValidationFailed), d)
          else
     (case user_findUnique d userId of
        None \<Rightarrow> ((404, ErrorBody ''User not found''), d)
      | Some user \<Rightarrow>
     (case user_update userId (\<lambda>u. u) d of
        Inl err \<Rightarrow> ((500, ErrorBody ''Internal server error''), d)
      | Inr d' \<Rightarrow> ((201, MessageBody ''Account status updated successfully''), d')))))"

section \<open>Submitting an objectively graded exam\<close>

text \<open>\<^verbatim>\<open>submitExamSchema\<close> on \<open>(examId, answers, timeSpent)\<close>.\<close>

definition submitExamSchema :: "string \<times> (string \<times> jsval) list \<times> int option \<Rightarrow> bool" where
  "submitExamSchema b = (case b of (examId, answers, timeSpent) \<Rightarrow>
     length examId \<ge> 1 \<and> (case timeSpent of None \<Rightarrow> True | Some t \<Rightarrow> t \<ge> 0))"

text \<open>\<^verbatim>\<open>answers[q.id]\<close>\<close>

definition answer_of :: "(string \<times> jsval) list \<Rightarrow> string \<Rightarrow> jsval" where
  "answer_of answers k = (case map_of answers k of None \<Rightarrow> JUndefined | Some v \<Rightarrow> v)"

text \<open>\<^verbatim>\<open>Math.round(percentage * 100) / 100\<close>, computed here on the exact rational. The code
  rounds the double, so the stored two-decimal percentage can differ in its last digit
  (23 of 160 is stored as 14.37 by the code and is 14.38 here). The value is only stored
  and returned, never compared.\<close>

definition round2 :: "rat \<Rightarrow> rat" where
  "round2 p = of_int \<lfloor>p * 100 + 1 / 2\<rfloor> / 100"

definition grade_results :: "exam_type \<Rightarrow> (string \<times> jsval) list \<Rightarrow> db \<Rightarrow> answer_result list" where
  "grade_results examType answers d =
     (case examType of
        READING \<Rightarrow>
          map (\<lambda>q. (rq_id q, answer_of answers (rq_id q), Some (rq_correctAnswer q),
                     Some (compareAnswers (answer_of answers (rq_id q)) (rq_correctAnswer q)),
                     rq_explanation q))
            (filter (\<lambda>q. rq_id q \<in> set (map fst answers)) (db_readingQuestion d))
      | LISTENING \<Rightarrow>
          map (\<lambda>q. (lq_id q, answer_of answers (lq_id q), Some (lq_correctAnswer q),
                     Some (compareAnswers (answer_of answers (lq_id q)) (lq_correctAnswer q)),
                     lq_explanation q))
            (filter (\<lambda>q. lq_id q \<in> set (map fst answers)) (db_listeningQuestion d))
      | WRITING \<Rightarrow> map (\<lambda>kv. (fst kv, snd kv, None, None, None)) answers
      | SPEAKING \<Rightarrow> map (\<lambda>kv. (fst kv, snd kv, None, None, None)) answers)"

definition isCorrect :: "answer_result \<Rightarrow> bool" where
  "isCorrect r = (case r of (questionId, userAnswer, correctAnswer, c, explanation) \<Rightarrow> c = Some True)"

definition objective_score :: "exam_type \<Rightarrow> answer_result list \<Rightarrow> rat option \<times> sub_scores option" where
  "objective_score examType results =
     (if examType = READING \<or> examType = LISTENING
      then (let correctCount = length (filter isCorrect results);
                totalQuestions = length results;
                percentage = percentage_of correctCount totalQuestions;
                score = calculateBandScore percentage
            in (Some score,
                Some (ObjectiveScores correctCount totalQuestions (round2 percentage) score)))
      else (None, None))"

text \<open>The exam-submit handler (\<^verbatim>\<open>POST\<close>).\<close>

definition submitExam ::
  "env \<Rightarrow> string option \<Rightarrow> (string \<times> (string \<times> jsval) list \<times> int option) parsed \<Rightarrow> db
     \<Rightarrow> response \<times> db" where
  "submitExam e authHeader body d =
     (case bearer_token authHeader of
        None \<Rightarrow> ((401, ErrorBody ''Authorization header required''), d)
      | Some accessToken \<Rightarrow>
     (case verifyAccessToken e accessToken of
        None \<Rightarrow> ((401, ErrorBody ''Invalid or expired access token''), d)
      | Some userId \<Rightarrow>
     (case body of
        JsonThrows m \<Rightarrow> ((500, ErrorBody ''Internal server error''), d)
      | BadShape \<Rightarrow> ((400, ValidationFailed), d)
      | Fields (examId, answers, timeSpent) \<Rightarrow>
          if \<not> submitExamSchema (examId, answers, timeSpent) then ((400, ValidationFailed), d)
          else
     (case examHistory_findUnique d examId of
        None \<Rightarrow> ((404, ErrorBody ''Exam not found''), d)
      | Some examHistory \<Rightarrow>
          if eh_userId examHistory \<noteq> userId
          then ((403, ErrorBody ''Forbidden: You do not own this exam''), d)
          else if eh_status examHistory = COMPLETED
          then ((400, ErrorBody ''Exam already submitted''), d)
          else
            (let examData = eh_jsonData examHistory;
                 examType = eh_examType examHistory;
                 results = grade_results examType answers d;
                 scored = objective_score examType results
             in case examHistory_update examId
                       (\<lambda>h. h\<lparr>eh_status := COMPLETED, eh_score := fst scored,
                               eh_subScores := snd scored,
                               eh_jsonData :=
                                 examData\<lparr>jd_answers := Some (JObj answers),
                                          jd_results := Some results,
                                          jd_timeSpent := timeSpent,
                                          jd_submittedAt := Some (now e)\<rparr>\<rparr>) d of
                  Inl err \<Rightarrow> ((500, ErrorBody ''Internal server error''), d)
                | Inr d' \<Rightarrow>
                    ((200, ExamSubmitted (fst scored) (snd scored) examType examId), d'))))))"

section \<open>Submitting a writing exam\<close>

text \<open>\<^verbatim>\<open>text.trim().split(/\s+/).length\<close>: one more than the number of maximal runs of white
  space in the trimmed text (an empty text splits into one empty piece).\<close>

fun space_runs :: "bool \<Rightarrow> string \<Rightarrow> nat" where
  "space_runs inRun [] = 0"
| "space_runs inRun (c # cs) =
     (if js_space c then (if inRun then 0 else 1) + space_runs True cs
      else space_runs False cs)"

definition wordCount_of :: "string \<Rightarrow> nat" where
  "wordCount_of userText = 1 + space_runs False (trim userText)"

text \<open>The \<^verbatim>\<open>catch\<close> branch of \<^verbatim>\<open>gradeWritingEssayWithFallback\<close>: three successive
  \<^verbatim>\<open>if / else if\<close> statements, each possibly overwriting the estimate.\<close>

definition estimatedScore :: "nat \<Rightarrow> task_type \<Rightarrow> rat" where
  "estimatedScore wordCount taskType =
     (let s0 = 5;
          s1 = (if wordCount \<ge> 150 \<and> taskType = TASK_1 then 6
                else if wordCount \<ge> 250 \<and> taskType = TASK_2 then 6 else s0);
          s2 = (if wordCount \<ge> 250 \<and> taskType = TASK_1 then 13 / 2
                else if wordCount \<ge> 300 \<and> taskType = TASK_2 then 13 / 2 else s1);
          s3 = (if wordCount \<ge> 300 \<and> taskType = TASK_1 then 7
                else if wordCount \<ge> 350 \<and> taskType = TASK_2 then 7 else s2)
      in s3)"

definition fallbackResult :: "nat \<Rightarrow> task_type \<Rightarrow> writing_grading_result" where
  "fallbackResult wordCount taskType =
     (let s = estimatedScore wordCount taskType
      in \<lparr>wr_score = s, wr_taskResponse = s, wr_coherence = s, wr_vocabulary = s, wr_grammar = s,
          wr_feedback =
            ''Your response has '' @ int_to_string (int wordCount) @ '' words. This ''
            @ (if wordCount \<ge> (if taskType = TASK_1 then 150 else 250)
               then ''meets'' else ''falls below'')
            @ '' the minimum word count requirements. Practice writing longer, more detailed responses to improve your score.'',
          wr_improvedAnswerExample =
            ''AI grading service temporarily unavailable. Please try again later.''\<rparr>)"

definition gradeWritingEssayWithFallback ::
  "env \<Rightarrow> task_type \<Rightarrow> string \<Rightarrow> string \<Rightarrow> int option \<Rightarrow> writing_grading_result \<times> grading_cost" where
  "gradeWritingEssayWithFallback e taskType prompt userText timeSpent =
     (case gradeWritingEssay e taskType prompt userText timeSpent of
        Some graded \<Rightarrow> graded
      | None \<Rightarrow>
          (fallbackResult (wordCount_of userText) taskType,
           \<lparr>gc_inputTokens = 0, gc_outputTokens = 0, gc_cost = 0\<rparr>))"

text \<open>\<^verbatim>\<open>submitWritingSchema\<close> on \<open>(examId, text, timeSpent)\<close>.\<close>

definition submitWritingSchema :: "string \<times> string \<times> int option \<Rightarrow> bool" where
  "submitWritingSchema b = (case b of (examId, userText, timeSpent) \<Rightarrow>
     length examId \<ge> 1 \<and> length userText \<ge> 1
     \<and> (case timeSpent of None \<Rightarrow> True | Some t \<Rightarrow> t \<ge> 0))"

text \<open>\<^verbatim>\<open>examData.prompt\<close>: present only in the payload of a writing exam.\<close>

definition prompt_of :: "json_data \<Rightarrow> prompt_view option" where
  "prompt_of examData =
     (case jd_exam examData of WritingExam p duration \<Rightarrow> Some p | _ \<Rightarrow> None)"

text \<open>The writing-submit handler (\<^verbatim>\<open>POST\<close>).\<close>

definition submitWriting ::
  "env \<Rightarrow> string option \<Rightarrow> (string \<times> string \<times> int option) parsed \<Rightarrow> db \<Rightarrow> response \<times> db" where
  "submitWriting e authHeader body d =
     (case bearer_token authHeader of
        None \<Rightarrow> ((401, ErrorBody ''Authorization header required''), d)
      | Some accessToken \<Rightarrow>
     (case verifyAccessToken e accessToken of
        None \<Rightarrow> ((401, ErrorBody ''Invalid or expired access token''), d)
      | Some userId \<Rightarrow>
     (case body of
        JsonThrows m \<Rightarrow> ((500, ErrorBody ''Internal server error''), d)
      | BadShape \<Rightarrow> ((400, ValidationFailed), d)
      | Fields (examId, userText, timeSpent) \<Rightarrow>
          if \<not> submitWritingSchema (examId, userText, timeSpent) then ((400, ValidationFailed), d)
          else
     (case examHistory_findUnique d examId of
        None \<Rightarrow> ((404, ErrorBody ''Exam not found''), d)
      | Some examHistory \<Rightarrow>
          if eh_userId examHistory \<noteq> userId
          then ((403, ErrorBody ''Forbidden: You do not own this exam''), d)
          else if eh_status examHistory = COMPLETED
          then ((400, ErrorBody ''Exam already submitted''), d)
          else if eh_examType examHistory \<noteq> WRITING
          then ((400, ErrorBody ''Invalid exam type''), d)
          else
     (let examData = eh_jsonData examHistory
      in case prompt_of examData of
        None \<Rightarrow> ((400, ErrorBody ''Writing prompt not found in exam data''), d)
      | Some prompt \<Rightarrow>
          (let graded = gradeWritingEssayWithFallback e (pv_taskType prompt) (pv_topic prompt)
                          userText timeSpent;
               result = fst graded;
               cost = snd graded;
               subScores = WritingScores (wr_taskResponse result) (wr_coherence result)
                             (wr_vocabulary result) (wr_grammar result)
                             (wordCount_of userText) timeSpent
           in case examHistory_update examId
                     (\<lambda>h. h\<lparr>eh_status := COMPLETED, eh_score := Some (wr_score result),
                             eh_subScores := Some subScores, eh_aiCost := Some (gc_cost cost),
                             eh_jsonData :=
                               examData\<lparr>jd_answers := Some (JObj [(''text'', JStr userText)]),
                                        jd_gradingResult := Some result,
                                        jd_gradingCost := Some cost,
                                        jd_submittedAt := Some (now e)\<rparr>\<rparr>) d of
                Inl err \<Rightarrow> ((500, ErrorBody ''Internal server error''), d)
              | Inr d' \<Rightarrow>
                  ((200, WritingGraded (wr_score result) subScores (wr_feedback result)
                           (wr_improvedAnswerExample result) cost examId), d')))))))"

section \<open>Texts as words and separators\<close>

text \<open>A word is a non-empty run of characters that are not white space; a blank is a run of
  white space. \<open>spaced_words\<close> writes out a list of words, each after its separator. Every
  text with at least one word is a blank, a word, then separated words, then a blank.\<close>

definition js_word :: "string \<Rightarrow> bool" where
  "js_word w = (w \<noteq> [] \<and> list_all (\<lambda>c. \<not> js_space c) w)"

definition js_blank :: "string \<Rightarrow> bool" where
  "js_blank s = list_all js_space s"

definition spaced_words :: "(string \<times> string) list \<Rightarrow> string" where
  "spaced_words rest = concat (map (\<lambda>sw. fst sw @ snd sw) rest)"

definition separated :: "(string \<times> string) list \<Rightarrow> bool" where
  "separated rest = list_all (\<lambda>sw. fst sw \<noteq> [] \<and> js_blank (fst sw) \<and> js_word (snd sw)) rest"

section \<open>Unique payment references\<close>

text \<open>No two ledger entries carry the same payment reference: what a unique index on
  \<^verbatim>\<open>stripePaymentIntentId\<close> maintains.\<close>

definition refs_unique :: "db \<Rightarrow> bool" where
  "refs_unique d = distinct (List.map_filter ct_stripePaymentIntentId (db_creditTransaction d))"

section \<open>Content availability and example data\<close>

text \<open>The exam type has no published content to select from (for the spoken type: some part
  has none).\<close>

definition no_published_content :: "exam_type \<Rightarrow> difficulty \<Rightarrow> db \<Rightarrow> bool" where
  "no_published_content ty difficulty d =
     (case ty of
        READING \<Rightarrow> published_passages difficulty d = []
      | LISTENING \<Rightarrow> published_audio d = []
      | WRITING \<Rightarrow> published_prompts d = []
      | SPEAKING \<Rightarrow> published_speaking 1 d = [] \<or> published_speaking 2 d = []
                      \<or> published_speaking 3 d = [])"

text \<open>A small store and a set of collaborators on which the handlers are run below: three
  users (one admin), a ledger that matches the balances, one session in progress and one
  completed, one published reading passage, and no listening, writing or speaking content.
  The grading collaborator is down, the processor accepts reversals, and \<open>create\<close> enforces
  no unique index (\<open>example_env_indexed\<close> below enforces it).\<close>

definition example_env :: env where
  "example_env =
     \<lparr>verifyAccessToken =
        (\<lambda>t. if t = ''tok-alice'' then Some ''alice''
              else if t = ''tok-bob'' then Some ''bob''
              else if t = ''tok-root'' then Some ''root'' else None),
      now = ''2024-01-01T00:00:00.000Z'',
      random = (\<lambda>n. 0),
      cuid = (\<lambda>n. if n = 0 then ''new0'' else if n = 1 then ''new1'' else ''new2''),
      stripe_refunds_create = (\<lambda>p. Some ''re_1''),
      gradeWritingEssay = (\<lambda>taskType prompt userText timeSpent. None),
      refUnique = False\<rparr>"

definition example_prompt :: prompt_view where
  "example_prompt =
     \<lparr>pv_id = ''w1'', pv_taskType = TASK_2, pv_topic = ''City life'',
      pv_description = ''Discuss both views.'', pv_imageUrl = None, pv_timeLimit = 40,
      pv_wordCount = 250\<rparr>"

definition example_db :: db where
  "example_db =
     \<lparr>db_user =
        [\<lparr>u_id = ''alice'', u_email = ''alice@example.com'', u_role = ''USER'', u_credits = 6\<rparr>,
         \<lparr>u_id = ''bob'', u_email = ''bob@example.com'', u_role = ''USER'', u_credits = 0\<rparr>,
         \<lparr>u_id = ''root'', u_email = ''root@example.com'', u_role = ''ADMIN'', u_credits = 0\<rparr>],
      db_creditTransaction =
        [\<lparr>ct_id = ''t1'', ct_userId = ''alice'', ct_amount = 1, ct_type = GRANT,
          ct_stripePaymentIntentId = None, ct_reason = ''Welcome''\<rparr>,
         \<lparr>ct_id = ''t2'', ct_userId = ''alice'', ct_amount = 5, ct_type = PURCHASE,
          ct_stripePaymentIntentId = Some ''pi_xyz'', ct_reason = ''Purchased Pack B - Standard''\<rparr>],
      db_examHistory =
        [\<lparr>eh_id = ''e1'', eh_userId = ''alice'', eh_examType = WRITING, eh_status = IN_PROGRESS,
          eh_score = None, eh_subScores = None, eh_aiCost = None,
          eh_jsonData =
            \<lparr>jd_exam = WritingExam example_prompt 40, jd_startTime = ''2023-12-31T23:00:00.000Z'',
             jd_answers = None, jd_results = None, jd_timeSpent = None,
             jd_gradingResult = None, jd_gradingCost = None, jd_submittedAt = None\<rparr>\<rparr>,
         \<lparr>eh_id = ''e2'', eh_userId = ''alice'', eh_examType = READING, eh_status = COMPLETED,
          eh_score = Some (15 / 2), eh_subScores = Some (ObjectiveScores 3 4 75 (15 / 2)),
          eh_aiCost = None,
          eh_jsonData =
            \<lparr>jd_exam = ReadingExam (''p1'', ''Tides'', ''The sea rises and falls.'', B1) [] 60,
             jd_startTime = ''2023-12-30T10:00:00.000Z'',
             jd_answers = Some (JObj []), jd_results = Some [], jd_timeSpent = Some 30,
             jd_gradingResult = None, jd_gradingCost = None,
             jd_submittedAt = Some ''2023-12-30T10:30:00.000Z''\<rparr>\<rparr>],
      db_readingPassage =
        [\<lparr>rp_id = ''p1'', rp_title = ''Tides'', rp_text = ''The sea rises and falls.'',
          rp_level = B1, rp_isPublished = True\<rparr>],
      db_readingQuestion =
        [\<lparr>rq_id = ''q1'', rq_passageId = ''p1'', rq_type = ''GAP_FILL'',
          rq_questionText = ''Name the city and the country.'', rq_options = JNull,
          rq_correctAnswer = JArr [JStr ''paris'', JStr ''france''], rq_explanation = None,
          rq_isPublished = True\<rparr>],
      db_listeningAudio = [],
      db_listeningQuestion = [],
      db_writingPrompt = [],
      db_speakingQuestion = []\<rparr>"

definition example_checkout :: stripe_event where
  "example_checkout =
     \<lparr>ev_id = ''evt_1'', ev_type = ''checkout.session.completed'',
      ev_session = \<lparr>cs_id = ''cs_1'', cs_userId = Some ''bob'', cs_packId = Some ''pack_b'',
                    cs_payment_intent = Some ''pi_abc''\<rparr>\<rparr>"

definition example_env_stripe_down :: env where
  "example_env_stripe_down = example_env\<lparr>stripe_refunds_create := (\<lambda>p. None)\<rparr>"


text \<open>Texts of \<open>k + 1\<close> words, a text whose separators use every white-space character, and
  the example store with the session's prompt turned into a task-1 prompt.\<close>

definition example_essay :: "nat \<Rightarrow> string" where
  "example_essay k = ''word'' @ spaced_words (replicate k ('' '', ''word''))"

definition example_mixed_text :: string where
  "example_mixed_text =
     [CHR 0x20, CHR 0x09] @ ''one'' @ [CHR 0x09] @ ''two'' @ [CHR 0x0A, CHR 0x0D] @ ''three''
     @ [CHR 0x0B, CHR 0x0C, CHR 0xA0] @ ''four'' @ [CHR 0x0A]"

definition example_db_task1 :: db where
  "example_db_task1 =
     example_db\<lparr>db_examHistory :=
       map (\<lambda>h. if eh_id h = ''e1''
                 then h\<lparr>eh_jsonData :=
                          (eh_jsonData h)\<lparr>jd_exam :=
                             WritingExam (example_prompt\<lparr>pv_taskType := TASK_1\<rparr>) 20\<rparr>\<rparr>
                 else h)
         (db_examHistory example_db)\<rparr>"

section \<open>Band scores\<close>

lemma calculateBandScore_mono: "p \<le> q \<Longrightarrow> calculateBandScore p \<le> calculateBandScore q"
  unfolding calculateBandScore_def by (simp split: if_splits)

lemma calculateBandScore_decile:
  assumes "0 < p" "p < 100"
  shows "calculateBandScore p = 4 + of_int \<lfloor>p / 10\<rfloor> / 2"
proof -
  define k where "k = \<lfloor>p / 10\<rfloor>"
  have lo: "of_int k \<le> p / 10" and hi: "p / 10 < of_int k + 1"
    unfolding k_def by linarith+
  have "0 \<le> k" unfolding k_def using assms by simp
  moreover have "k \<le> 9" unfolding k_def using assms by (simp add: floor_le_iff)
  ultimately have "k = 0 \<or> k = 1 \<or> k = 2 \<or> k = 3 \<or> k = 4 \<or> k = 5 \<or> k = 6
    \<or> k = 7 \<or> k = 8 \<or> k = 9" by arith
  then have "calculateBandScore p = 4 + of_int k / 2"
    using lo hi assms by (elim disjE) (simp_all add: calculateBandScore_def)
  then show ?thesis by (simp add: k_def)
qed

text \<open>
  Claim C8. The band is a nondecreasing step function of the percentage: 9 at 100 percent
  (and above), then half a band lower for each decile below, that is \<open>4 + \<lfloor>p / 10\<rfloor> / 2\<close>
  for \<open>0 < p < 100\<close>, which is 8.5 on \<open>[90, 100)\<close> down to 4 on \<open>(0, 10)\<close>, and 0 at 0 percent.
  Three correct answers out of four are 75 percent and give band 7.5.
\<close>

theorem calculateBandScore_step_function:
  "(\<forall>p q. p \<le> q \<longrightarrow> calculateBandScore p \<le> calculateBandScore q)
   \<and> (\<forall>p. 100 \<le> p \<longrightarrow> calculateBandScore p = 9)
   \<and> (\<forall>p. 0 < p \<and> p < 100 \<longrightarrow> calculateBandScore p = 4 + of_int \<lfloor>p / 10\<rfloor> / 2)
   \<and> (\<forall>p. p \<le> 0 \<longrightarrow> calculateBandScore p = 0)
   \<and> percentage_of 3 4 = 75
   \<and> calculateBandScore (percentage_of 3 4) = 15 / 2"
  using calculateBandScore_mono calculateBandScore_decile
  by (simp add: calculateBandScore_def percentage_of_def)

theorem calculateBandScore_step_function_witness:
  "(75::rat) \<le> 80 \<and> calculateBandScore 75 \<le> calculateBandScore 80
   \<and> (100::rat) \<le> 100 \<and> calculateBandScore 100 = 9
   \<and> (0::rat) < 75 \<and> (75::rat) < 100 \<and> calculateBandScore 75 = 15 / 2
   \<and> (0::rat) \<le> 0 \<and> calculateBandScore 0 = 0"
proof -
  have a: "calculateBandScore 75 \<le> calculateBandScore 80"
    using calculateBandScore_step_function by simp
  have b: "calculateBandScore 100 = 9"
    using calculateBandScore_step_function by simp
  have c: "calculateBandScore 75 = 4 + of_int \<lfloor>(75::rat) / 10\<rfloor> / 2"
    using calculateBandScore_step_function by simp
  have "\<lfloor>(75::rat) / 10\<rfloor> = 7" by (simp add: floor_eq_iff)
  with c have c': "calculateBandScore 75 = 15 / 2" by simp
  have d: "calculateBandScore 0 = 0"
    using calculateBandScore_step_function by simp
  from a b c' d show ?thesis by simp
qed

section \<open>Answer comparison\<close>

text \<open>The array branch: equal lengths, and every required value occurs in the submission
  under SameValueZero. The order of the submission plays no part.\<close>

lemma compareAnswers_array:
  "compareAnswers (JArr us) (JArr cs) =
     (length cs = length us \<and> (\<forall>c \<in> set cs. \<exists>u \<in> set us. sameValueZero u c))"
  by (auto simp: compareAnswers_def js_includes_def list_all_iff list_ex_iff)

lemma compareAnswers_array_order:
  "set us = set us' \<Longrightarrow> length us = length us' \<Longrightarrow>
   compareAnswers (JArr us) (JArr cs) = compareAnswers (JArr us') (JArr cs)"
  by (simp add: compareAnswers_array)

lemma compareAnswers_array_reordered:
  "compareAnswers (JArr [JStr ''france'', JStr ''paris'']) (JArr [JStr ''paris'', JStr ''france''])"
  by (simp add: compareAnswers_array)

text \<open>The string branch lowers the case of both sides before comparing.\<close>

lemma compareAnswers_string_ignores_case: "compareAnswers (JStr ''Paris'') (JStr ''paris'')"
  by code_simp

text \<open>
  Claim C4. For the answer key \<open>["paris", "france"]\<close> the submission \<open>["France", "Paris"]\<close>
  is judged incorrect by the code: the array branch compares the elements exactly, without
  the case folding that the string branch applies.
\<close>

theorem compareAnswers_array_is_case_sensitive:
  "compareAnswers (JArr [JStr ''France'', JStr ''Paris'']) (JArr [JStr ''paris'', JStr ''france''])
     = False"
  by (simp add: compareAnswers_def js_includes_def)

section \<open>Facts about the store operations\<close>

lemma find_append_last:
  "find P (xs @ [r]) = (case find P xs of Some x \<Rightarrow> Some x | None \<Rightarrow> if P r then Some r else None)"
  by (induction xs) auto

lemma user_find_after_map:
  assumes "\<And>u. u_id (f u) = u_id u"
  shows "find (\<lambda>u. u_id u = uid) (map (\<lambda>u. if u_id u = uid' then f u else u) us)
           = map_option (\<lambda>u. if u_id u = uid' then f u else u) (find (\<lambda>u. u_id u = uid) us)"
  using assms by (induction us) auto

lemma increment_credits_id: "u_id (increment_credits n u) = u_id u"
  by (simp add: increment_credits_def)

lemma decrement_credits_id: "u_id (decrement_credits n u) = u_id u"
  by (simp add: decrement_credits_def)

lemma transaction_throws: "transaction (\<lambda>d0. Inl err) d = (Inl err, d)"
  by (simp add: transaction_def)

section \<open>The balance invariant\<close>

lemma ledger_sum_reason:
  "ledger_sum (d\<lparr>db_creditTransaction :=
       map (\<lambda>t. if ct_id t = i then t\<lparr>ct_reason := r\<rparr> else t) (db_creditTransaction d)\<rparr>) uid
     = ledger_sum d uid"
proof -
  have "\<And>xs. sum_list (map ct_amount (filter (\<lambda>t. ct_userId t = uid)
           (map (\<lambda>t. if ct_id t = i then t\<lparr>ct_reason := r\<rparr> else t) xs)))
        = sum_list (map ct_amount (filter (\<lambda>t. ct_userId t = uid) xs))"
    subgoal for xs by (induction xs) auto
    done
  then show ?thesis by (simp add: ledger_sum_def)
qed

lemma ledger_sum_users [simp]: "ledger_sum (d\<lparr>db_user := us\<rparr>) uid = ledger_sum d uid"
  by (simp add: ledger_sum_def)

text \<open>A credit change of n for one user together with a ledger entry of amount n for the
  same user keeps the invariant.\<close>

lemma invariant_paired_write:
  assumes "balance_invariant d" and "ct_userId row = uid" and "ct_amount row = n"
  shows "balance_invariant
           (d\<lparr>db_user := map (\<lambda>u. if u_id u = uid then u\<lparr>u_credits := u_credits u + n\<rparr> else u) (db_user d),
              db_creditTransaction := db_creditTransaction d @ [row]\<rparr>)"
  using assms
  by (auto simp: balance_invariant_def list_all_iff ledger_sum_def)

lemma user_update_Inr:
  "user_update uid f d = Inr d1 \<Longrightarrow>
     d1 = d\<lparr>db_user := map (\<lambda>u. if u_id u = uid then f u else u) (db_user d)\<rparr>
     \<and> user_findUnique d uid \<noteq> None"
  by (auto simp: user_update_def split: if_splits)

lemma creditTransaction_create_Inr:
  "creditTransaction_create e row d = Inr d1 \<Longrightarrow>
     d1 = d\<lparr>db_creditTransaction := db_creditTransaction d @ [row]\<rparr>"
  by (auto simp: creditTransaction_create_def split: if_splits)

lemma invariant_update_create:
  assumes inv: "balance_invariant d"
    and upd: "user_update uid (increment_credits n) d = Inr d1"
    and cre: "creditTransaction_create e row d1 = Inr d2"
    and row: "ct_userId row = uid" "ct_amount row = n"
  shows "balance_invariant d2"
proof -
  from user_update_Inr [OF upd] creditTransaction_create_Inr [OF cre]
  have "d2 = d\<lparr>db_user := map (\<lambda>u. if u_id u = uid then u\<lparr>u_credits := u_credits u + n\<rparr> else u) (db_user d),
              db_creditTransaction := db_creditTransaction d @ [row]\<rparr>"
    by (simp add: increment_credits_def)
  with invariant_paired_write [OF inv row] show ?thesis by simp
qed

lemma decrement_as_increment: "decrement_credits n = increment_credits (- n)"
  by (rule ext) (simp add: decrement_credits_def increment_credits_def)

lemma invariant_grant_tx:
  "balance_invariant d \<Longrightarrow> grant_tx e userId amount reason d = Inr (u, d') \<Longrightarrow> balance_invariant d'"
  by (auto simp: grant_tx_def split: sum.splits elim!: invariant_update_create [rotated 1])

lemma invariant_revoke_tx:
  "balance_invariant d \<Longrightarrow> revoke_tx e userId amount reason d = Inr (u, d') \<Longrightarrow> balance_invariant d'"
  by (auto simp: revoke_tx_def decrement_as_increment split: sum.splits
      elim!: invariant_update_create [rotated 1])

lemma invariant_purchase_tx:
  "balance_invariant d \<Longrightarrow> purchase_tx e userId p pack d = Inr (u, d') \<Longrightarrow> balance_invariant d'"
  by (auto simp: purchase_tx_def split: sum.splits elim!: invariant_update_create [rotated 1])

lemma invariant_transaction:
  assumes "balance_invariant d"
    and "\<And>r d'. callback d = Inr (r, d') \<Longrightarrow> balance_invariant d'"
  shows "balance_invariant (snd (transaction callback d))"
  using assms by (auto simp: transaction_def split: sum.splits)

lemma invariant_grantCredits:
  assumes "balance_invariant d"
  shows "balance_invariant (snd (grantCredits e a b d))"
proof -
  have tx: "balance_invariant (snd (transaction (grant_tx e uid n r) d))" for uid n r
    using assms invariant_grant_tx by (intro invariant_transaction) auto
  show ?thesis
    using assms
    by (auto simp: grantCredits_def split_beta tx split: option.splits parsed.splits sum.splits)
qed

lemma invariant_revokeCredits:
  assumes "balance_invariant d"
  shows "balance_invariant (snd (revokeCredits e a b d))"
proof -
  have tx: "balance_invariant (snd (transaction (revoke_tx e uid n r) d))" for uid n r
    using assms invariant_revoke_tx by (intro invariant_transaction) auto
  show ?thesis
    using assms
    by (auto simp: revokeCredits_def split_beta tx split: option.splits parsed.splits sum.splits)
qed

lemma invariant_handleCheckout:
  assumes "balance_invariant d"
  shows "balance_invariant (snd (handleCheckoutSessionCompleted e s i d))"
proof -
  have tx: "balance_invariant (snd (transaction (purchase_tx e uid p pack) d))" for uid p pack
    using assms invariant_purchase_tx by (intro invariant_transaction) auto
  show ?thesis
    using assms
    by (auto simp: handleCheckoutSessionCompleted_def transaction_throws tx
        split: option.splits pack_lookup.splits)
qed

lemma invariant_stripe_webhook:
  assumes "balance_invariant d"
  shows "balance_invariant (snd (stripe_webhook e v d))"
  using assms invariant_handleCheckout [OF assms]
  by (auto simp: stripe_webhook_def split_beta split: option.splits sum.splits)

lemma invariant_refund_tx:
  assumes inv: "balance_invariant d" and tx: "refund_tx e t rid d = Inr (u, d')"
  shows "balance_invariant d'"
proof -
  from tx obtain d1 d2 where
    upd: "user_update (ct_userId t) (decrement_credits (ct_amount t)) d = Inr d1"
    and rsn: "creditTransaction_update_reason (ct_id t) (ct_reason t @ '' - REFUNDED'') d1 = Inr d2"
    and cre: "creditTransaction_create e
             \<lparr>ct_id = cuid e 0, ct_userId = ct_userId t, ct_amount = - ct_amount t,
              ct_type = REFUND, ct_stripePaymentIntentId = ct_stripePaymentIntentId t,
              ct_reason = ''Refund of '' @ ct_reason t @ ''. Refund ID: '' @ rid\<rparr> d2 = Inr d'"
    by (auto simp: refund_tx_def split: sum.splits)
  let ?d0 = "d\<lparr>db_creditTransaction :=
       map (\<lambda>x. if ct_id x = ct_id t then x\<lparr>ct_reason := ct_reason t @ '' - REFUNDED''\<rparr> else x) (db_creditTransaction d)\<rparr>"
  have inv0: "balance_invariant ?d0"
    using inv by (simp add: balance_invariant_def ledger_sum_reason)
  have d2: "d2 = d1\<lparr>db_creditTransaction :=
       map (\<lambda>x. if ct_id x = ct_id t then x\<lparr>ct_reason := ct_reason t @ '' - REFUNDED''\<rparr> else x) (db_creditTransaction d1)\<rparr>"
    using rsn by (auto simp: creditTransaction_update_reason_def split: if_splits)
  have upd0: "user_update (ct_userId t) (increment_credits (- ct_amount t)) ?d0 = Inr d2"
    using upd d2 by (auto simp: user_update_def user_findUnique_def decrement_as_increment split: if_splits)
  from invariant_update_create [OF inv0 upd0 cre] show ?thesis by simp
qed

lemma invariant_refund:
  assumes "balance_invariant d"
  shows "balance_invariant (fst (snd (refund e a i d)))"
proof -
  have tx: "balance_invariant (snd (transaction (refund_tx e t rid) d))" for t rid
    using assms invariant_refund_tx by (intro invariant_transaction) auto
  show ?thesis
    using assms
    by (auto simp: refund_def split_beta tx split: option.splits sum.splits)
qed


lemma examHistory_create_Inr:
  "examHistory_create row d = Inr d' \<Longrightarrow> d' = d\<lparr>db_examHistory := db_examHistory d @ [row]\<rparr>"
  by (auto simp: examHistory_create_def split: if_splits)

lemma invariant_startExam_tx:
  assumes inv: "balance_invariant d" and tx: "startExam_tx e user ty difficulty d = Inr (r, d')"
  shows "balance_invariant d'"
proof -
  from tx obtain d1 d2 row where
    upd: "user_update (u_id user) (decrement_credits 1) d = Inr d1"
    and cre: "creditTransaction_create e
             \<lparr>ct_id = cuid e 0, ct_userId = u_id user, ct_amount = - 1, ct_type = USAGE,
              ct_stripePaymentIntentId = None,
              ct_reason = ''Started '' @ exam_type_name ty @ '' exam''\<rparr> d1 = Inr d2"
    and his: "examHistory_create row d2 = Inr d'"
    by (auto simp: startExam_tx_def split: sum.splits)
  from upd have "user_update (u_id user) (increment_credits (- 1)) d = Inr d1"
    by (simp add: decrement_as_increment)
  from invariant_update_create [OF inv this cre] have "balance_invariant d2" by simp
  with examHistory_create_Inr [OF his] show ?thesis
    by (simp add: balance_invariant_def ledger_sum_def)
qed

lemma user_update_keeps_user:
  assumes "user_update uid (increment_credits n) d = Inr d1"
  shows "user_findUnique d1 uid \<noteq> None"
proof -
  from user_update_Inr [OF assms]
  have d1: "d1 = d\<lparr>db_user := map (\<lambda>u. if u_id u = uid then increment_credits n u else u) (db_user d)\<rparr>"
    and ex: "user_findUnique d uid \<noteq> None" by simp_all
  show ?thesis
    using ex unfolding d1 user_findUnique_def
    by (simp add: user_find_after_map increment_credits_id)
qed

text \<open>The two writes of the compensation are not a transaction, but the second cannot fail
  once the first has succeeded: the owner exists and the entry carries no payment
  reference.\<close>

lemma restore_credit_cases:
  "restore_credit e uid d = d \<or>
   (\<exists>d1 d2. user_update uid (increment_credits 1) d = Inr d1
      \<and> creditTransaction_create e
           \<lparr>ct_id = cuid e 2, ct_userId = uid, ct_amount = 1, ct_type = USAGE_FAIL,
            ct_stripePaymentIntentId = None,
            ct_reason = ''Credit restored - no published content available''\<rparr> d1 = Inr d2
      \<and> restore_credit e uid d = d2)"
proof (cases "user_update uid (increment_credits 1) d")
  case (Inl err)
  then show ?thesis by (simp add: restore_credit_def)
next
  case (Inr d1)
  from user_update_keeps_user [OF Inr]
  have "\<exists>d2. creditTransaction_create e
           \<lparr>ct_id = cuid e 2, ct_userId = uid, ct_amount = 1, ct_type = USAGE_FAIL,
            ct_stripePaymentIntentId = None,
            ct_reason = ''Credit restored - no published content available''\<rparr> d1 = Inr d2"
    by (simp add: creditTransaction_create_def ref_taken_def)
  then show ?thesis using Inr by (auto simp: restore_credit_def)
qed

lemma invariant_restore_credit:
  assumes "balance_invariant d"
  shows "balance_invariant (restore_credit e uid d)"
  using restore_credit_cases [of e uid d] assms
  by (auto elim!: invariant_update_create [rotated 1])

lemma invariant_startExam_catch:
  assumes "balance_invariant d"
  shows "balance_invariant (snd (startExam_catch e a err d))"
  using assms invariant_restore_credit [OF assms]
  by (auto simp: startExam_catch_def Let_def split: option.splits)

lemma invariant_startExam:
  assumes "balance_invariant d"
  shows "balance_invariant (snd (startExam e a b d))"
proof -
  have tx: "balance_invariant (snd (transaction (startExam_tx e user ty df) d))" for user ty df
    using assms invariant_startExam_tx by (intro invariant_transaction) auto
  have catch: "balance_invariant (snd (startExam_catch e a err (snd (transaction (startExam_tx e user ty df) d))))"
    for user ty df err
    by (rule invariant_startExam_catch [OF tx])
  show ?thesis
    using assms invariant_startExam_catch [OF assms]
    by (auto simp: startExam_def split_beta tx catch split: option.splits parsed.splits sum.splits)
qed

text \<open>
  Claim C1. If every user's cached credits equal the sum of the amounts of that user's
  ledger entries, the same holds after the exam-start handler (its compensation included),
  the webhook handler, the refund handler, and the admin grant and revoke handlers,
  whatever the request and whatever the collaborators answer.
\<close>

theorem balance_invariant_preserved:
  assumes "balance_invariant d"
  shows "balance_invariant (snd (startExam e1 authHeader1 body1 d))
       \<and> balance_invariant (snd (stripe_webhook e2 verified d))
       \<and> balance_invariant (fst (snd (refund e3 authHeader3 transactionId d)))
       \<and> balance_invariant (snd (grantCredits e4 authHeader4 body4 d))
       \<and> balance_invariant (snd (revokeCredits e5 authHeader5 body5 d))"
  using assms
  by (simp add: invariant_startExam invariant_stripe_webhook invariant_refund
      invariant_grantCredits invariant_revokeCredits)

theorem balance_invariant_preserved_witness:
  "balance_invariant example_db
   \<and> balance_invariant
       (snd (startExam example_env (Some ''Bearer tok-alice'') (Fields (READING, MIXED)) example_db))
   \<and> balance_invariant
       (snd (startExam example_env (Some ''Bearer tok-alice'') (Fields (LISTENING, MIXED)) example_db))
   \<and> balance_invariant (snd (stripe_webhook example_env (Some example_checkout, None) example_db))
   \<and> balance_invariant (fst (snd (refund example_env (Some ''Bearer tok-root'') ''t2'' example_db)))
   \<and> balance_invariant
       (snd (grantCredits example_env (Some ''Bearer tok-root'') (Fields (''bob'', 3, ''goodwill''))
          example_db))
   \<and> balance_invariant
       (snd (revokeCredits example_env (Some ''Bearer tok-root'') (Fields (''alice'', 2, ''abuse''))
          example_db))"
proof -
  have h: "balance_invariant example_db" by code_simp
  from balance_invariant_preserved [OF h, where ?e1.0 = example_env
      and ?authHeader1.0 = "Some ''Bearer tok-alice''" and ?body1.0 = "Fields (READING, MIXED)"
      and ?e2.0 = example_env and verified = "(Some example_checkout, None)"
      and ?e3.0 = example_env and ?authHeader3.0 = "Some ''Bearer tok-root''"
      and transactionId = "''t2''"
      and ?e4.0 = example_env and ?authHeader4.0 = "Some ''Bearer tok-root''"
      and ?body4.0 = "Fields (''bob'', 3, ''goodwill'')"
      and ?e5.0 = example_env and ?authHeader5.0 = "Some ''Bearer tok-root''"
      and ?body5.0 = "Fields (''alice'', 2, ''abuse'')"]
  have a: "balance_invariant
       (snd (startExam example_env (Some ''Bearer tok-alice'') (Fields (READING, MIXED)) example_db))
   \<and> balance_invariant (snd (stripe_webhook example_env (Some example_checkout, None) example_db))
   \<and> balance_invariant (fst (snd (refund example_env (Some ''Bearer tok-root'') ''t2'' example_db)))
   \<and> balance_invariant
       (snd (grantCredits example_env (Some ''Bearer tok-root'') (Fields (''bob'', 3, ''goodwill''))
          example_db))
   \<and> balance_invariant
       (snd (revokeCredits example_env (Some ''Bearer tok-root'') (Fields (''alice'', 2, ''abuse''))
          example_db))" .
  from balance_invariant_preserved [OF h, where ?e1.0 = example_env
      and ?authHeader1.0 = "Some ''Bearer tok-alice''" and ?body1.0 = "Fields (LISTENING, MIXED)"]
  have b: "balance_invariant
       (snd (startExam example_env (Some ''Bearer tok-alice'') (Fields (LISTENING, MIXED)) example_db))"
    by (rule conjunct1)
  from h a b show ?thesis by blast
qed

section \<open>Payment reconciliation is idempotent\<close>

lemma purchase_tx_fresh:
  assumes "creditTransaction_findUnique_ref d p = None"
  shows "purchase_tx e uid p pack d =
     (if user_findUnique d uid = None then Inl (Error ''Record to update not found.'')
      else Inr ((), d\<lparr>db_user := map (\<lambda>u. if u_id u = uid then increment_credits (cp_credits pack) u else u) (db_user d),
                     db_creditTransaction := db_creditTransaction d @
                       [\<lparr>ct_id = cuid e 0, ct_userId = uid, ct_amount = cp_credits pack,
                         ct_type = PURCHASE, ct_stripePaymentIntentId = Some p,
                         ct_reason = ''Purchased '' @ cp_name pack\<rparr>]\<rparr>))"
proof -
  have nt: "\<not> list_ex (\<lambda>t. ct_stripePaymentIntentId t = Some p) (db_creditTransaction d)"
    using assms by (simp add: creditTransaction_findUnique_ref_def find_None_iff list_ex_iff)
  show ?thesis
    using nt
    by (auto simp: purchase_tx_def user_update_def creditTransaction_create_def ref_taken_def
        user_findUnique_def user_find_after_map increment_credits_id)
qed

lemma handle_replay:
  assumes "truthy (cs_payment_intent s) = Some p" and "creditTransaction_findUnique_ref d p \<noteq> None"
  shows "handleCheckoutSessionCompleted e s i d = (Inr (), d)"
  using assms by (auto simp: handleCheckoutSessionCompleted_def split: option.splits)

lemma handle_twice:
  "handleCheckoutSessionCompleted e' s i' (snd (handleCheckoutSessionCompleted e s i d))
     = handleCheckoutSessionCompleted e s i d"
proof (cases "truthy (cs_userId s)")
  case None
  then show ?thesis by (simp add: handleCheckoutSessionCompleted_def)
next
  case uid: (Some userId)
  show ?thesis
  proof (cases "truthy (cs_packId s)")
    case None
    then show ?thesis using uid by (simp add: handleCheckoutSessionCompleted_def)
  next
    case pid: (Some packId)
    show ?thesis
    proof (cases "truthy (cs_payment_intent s)")
      case None
      then show ?thesis using uid pid by (simp add: handleCheckoutSessionCompleted_def)
    next
      case pi: (Some p)
      show ?thesis
      proof (cases "creditTransaction_findUnique_ref d p")
        case (Some t)
        then show ?thesis using uid pid pi by (simp add: handleCheckoutSessionCompleted_def)
      next
        case fresh: None
        show ?thesis
        proof (cases "getCreditPackById packId")
          case NoPack
          then show ?thesis using uid pid pi fresh by (simp add: handleCheckoutSessionCompleted_def)
        next
          case InheritedProperty
          then show ?thesis using uid pid pi fresh
            by (simp add: handleCheckoutSessionCompleted_def transaction_throws)
        next
          case (OwnPack pack)
          show ?thesis
          proof (cases "user_findUnique d userId")
            case None
            then show ?thesis using uid pid pi fresh OwnPack
              by (simp add: handleCheckoutSessionCompleted_def purchase_tx_fresh transaction_def)
          next
            case (Some u)
            then show ?thesis using uid pid pi fresh OwnPack
              by (simp add: handleCheckoutSessionCompleted_def purchase_tx_fresh transaction_def
                  creditTransaction_findUnique_ref_def find_append_last split: option.splits)
          qed
        qed
      qed
    qed
  qed
qed

text \<open>
  Claim C2. For a verified \<^verbatim>\<open>checkout.session.completed\<close> event with payment reference \<open>p\<close>:
  when the ledger already holds an entry with that reference, the webhook answers
  200 \<^verbatim>\<open>{received: true}\<close> and leaves the store as it was; and delivering the event a second
  time, after any first delivery, gives the first delivery's answer and changes nothing more,
  so the pack is credited once in total.
\<close>

theorem reconcile_idempotent:
  assumes "fst verified = Some event" and "truthy (snd verified) = None"
    and "ev_type event = ''checkout.session.completed''"
    and "truthy (cs_payment_intent (ev_session event)) = Some p"
  shows "(creditTransaction_findUnique_ref d p \<noteq> None \<longrightarrow>
            stripe_webhook e verified d = ((200, Received), d))
       \<and> stripe_webhook e' verified (snd (stripe_webhook e verified d))
            = stripe_webhook e verified d"
proof -
  let ?h = "handleCheckoutSessionCompleted e (ev_session event) (ev_id event) d"
  have a: "stripe_webhook e verified d =
        (case ?h of (Inl thrown, d') \<Rightarrow> ((500, ErrorBody ''Internal server error''), d')
                  | (Inr u, d') \<Rightarrow> ((200, Received), d'))"
    using assms by (simp add: stripe_webhook_def)
  have b: "stripe_webhook e' verified (snd ?h) =
        (case handleCheckoutSessionCompleted e' (ev_session event) (ev_id event) (snd ?h) of
           (Inl thrown, d') \<Rightarrow> ((500, ErrorBody ''Internal server error''), d')
         | (Inr u, d') \<Rightarrow> ((200, Received), d'))"
    using assms by (simp add: stripe_webhook_def)
  have c: "snd (stripe_webhook e verified d) = snd ?h"
    unfolding a by (simp add: split_beta split: sum.splits)
  show ?thesis
    using handle_replay [OF assms(4), of d e "ev_id event"]
    unfolding c b handle_twice unfolding a by simp
qed

theorem reconcile_idempotent_witness:
  "creditTransaction_findUnique_ref
     (snd (stripe_webhook example_env (Some example_checkout, None) example_db)) ''pi_abc'' \<noteq> None
   \<and> stripe_webhook example_env (Some example_checkout, None)
       (snd (stripe_webhook example_env (Some example_checkout, None) example_db))
     = ((200, Received), snd (stripe_webhook example_env (Some example_checkout, None) example_db))
   \<and> credits_of example_db ''bob'' = Some 0
   \<and> credits_of (snd (stripe_webhook example_env (Some example_checkout, None) example_db)) ''bob''
     = Some 5"
proof -
  let ?v = "(Some example_checkout, None :: string option)"
  let ?d1 = "snd (stripe_webhook example_env ?v example_db)"
  have p1: "fst ?v = Some example_checkout" by simp
  have p2: "truthy (snd ?v) = None" by (simp add: truthy_def)
  have p3: "ev_type example_checkout = ''checkout.session.completed''"
    by (simp add: example_checkout_def)
  have p4: "truthy (cs_payment_intent (ev_session example_checkout)) = Some ''pi_abc''"
    by (simp add: example_checkout_def truthy_def)
  have present: "creditTransaction_findUnique_ref ?d1 ''pi_abc'' \<noteq> None" by code_simp
  from reconcile_idempotent [OF p1 p2 p3 p4, of ?d1 example_env example_env] present
  have replay: "stripe_webhook example_env ?v ?d1 = ((200, Received), ?d1)" by blast
  have c0: "credits_of example_db ''bob'' = Some 0" by code_simp
  have c1: "credits_of ?d1 ''bob'' = Some 5" by code_simp
  from present replay c0 c1 show ?thesis by blast
qed

section \<open>Starting an exam without published content\<close>

lemma select_content_none:
  assumes "no_published_content ty difficulty d"
  shows "\<exists>m. select_content e ty difficulty d = Inl (Error m) \<and> str_includes m ''No published''"
  using assms
  by (cases ty) (auto simp: no_published_content_def select_content_def Let_def)

lemma no_published_content_cong:
  assumes "db_readingPassage d' = db_readingPassage d" "db_listeningAudio d' = db_listeningAudio d"
    "db_writingPrompt d' = db_writingPrompt d" "db_speakingQuestion d' = db_speakingQuestion d"
  shows "no_published_content ty df d' = no_published_content ty df d"
  using assms
  by (cases ty)
    (simp_all add: no_published_content_def published_passages_def published_audio_def
      published_prompts_def published_speaking_def)

lemma startExam_tx_no_content:
  assumes "no_published_content ty difficulty d" and "user_findUnique d (u_id user) \<noteq> None"
  shows "\<exists>m. startExam_tx e user ty difficulty d = Inl (Error m) \<and> str_includes m ''No published''"
proof -
  let ?d1 = "d\<lparr>db_user := map (\<lambda>u. if u_id u = u_id user then decrement_credits 1 u else u) (db_user d)\<rparr>"
  let ?row = "\<lparr>ct_id = cuid e 0, ct_userId = u_id user, ct_amount = - 1, ct_type = USAGE,
              ct_stripePaymentIntentId = None,
              ct_reason = ''Started '' @ exam_type_name ty @ '' exam''\<rparr>"
  let ?d2 = "?d1\<lparr>db_creditTransaction := db_creditTransaction ?d1 @ [?row]\<rparr>"
  have u: "user_update (u_id user) (decrement_credits 1) d = Inr ?d1"
    using assms(2) by (simp add: user_update_def)
  have "user_findUnique ?d1 (u_id user) \<noteq> None"
    using assms(2) by (simp add: user_findUnique_def user_find_after_map decrement_credits_id)
  then have c: "creditTransaction_create e ?row ?d1 = Inr ?d2"
    by (simp add: creditTransaction_create_def ref_taken_def)
  have "no_published_content ty difficulty ?d2"
    using assms(1) no_published_content_cong [of ?d2 d ty difficulty] by simp
  from select_content_none [OF this, of e] obtain m where
    m: "select_content e ty difficulty ?d2 = Inl (Error m)" "str_includes m ''No published''"
    by blast
  show ?thesis
    using u c m by (simp add: startExam_tx_def)
qed

lemma bearer_token_drop: "bearer_token a = Some t \<Longrightarrow> (case a of None \<Rightarrow> [] | Some h \<Rightarrow> drop 7 h) = t"
  by (auto simp: bearer_token_def split: option.splits if_splits)

lemma restore_credit_adds:
  assumes "user_findUnique d uid = Some user"
  shows "credits_of (restore_credit e uid d) uid = Some (u_credits user + 1)"
proof -
  let ?d1 = "d\<lparr>db_user := map (\<lambda>u. if u_id u = uid then increment_credits 1 u else u) (db_user d)\<rparr>"
  have u: "user_update uid (increment_credits 1) d = Inr ?d1"
    using assms by (simp add: user_update_def)
  have f: "user_findUnique ?d1 uid = Some (increment_credits 1 user)"
    using assms find_Some_iff [of "\<lambda>u. u_id u = uid" "db_user d" user]
    by (auto simp add: user_findUnique_def user_find_after_map increment_credits_id)
  then show ?thesis
    unfolding restore_credit_def u
    by (simp add: creditTransaction_create_def ref_taken_def credits_of_def user_findUnique_def
        increment_credits_def)
qed

text \<open>With a valid token, a balance of at least one and nothing published for the requested
  type, the handler answers 503 and the balance ends one higher than it started: the
  deduction and its USAGE entry are rolled back with the transaction, and the compensation
  then adds a credit and a USAGE_FAIL entry.\<close>

lemma startExam_no_content:
  assumes "bearer_token authHeader = Some accessToken"
    and "verifyAccessToken e accessToken = Some userId"
    and "user_findUnique d userId = Some user"
    and "u_credits user \<ge> 1"
    and "no_published_content ty difficulty d"
  shows "fst (fst (startExam e authHeader (Fields (ty, difficulty)) d)) = 503
       \<and> credits_of (snd (startExam e authHeader (Fields (ty, difficulty)) d)) userId
           = Some (u_credits user + 1)"
proof -
  have uid: "u_id user = userId"
    using assms(3) find_Some_iff [of "\<lambda>u. u_id u = userId" "db_user d" user]
    by (auto simp: user_findUnique_def)
  from startExam_tx_no_content [OF assms(5), of user e] assms(3) uid obtain m where
    m: "startExam_tx e user ty difficulty d = Inl (Error m)" "str_includes m ''No published''"
    by auto
  have s: "startExam e authHeader (Fields (ty, difficulty)) d
             = ((503, ErrorBody m), restore_credit e userId d)"
    using assms m bearer_token_drop [OF assms(1)]
    by (simp add: startExam_def transaction_def startExam_catch_def)
  show ?thesis unfolding s using restore_credit_adds [OF assms(3)] by simp
qed

text \<open>
  Claim C3. On the example store, where no listening audio is published, a user with
  balance 6 who starts a listening exam gets 503 and ends with balance 7, not 6; the ledger
  gains the USAGE_FAIL entry of +1 and no USAGE entry of -1.
\<close>

theorem startExam_without_content_adds_a_credit:
  "credits_of example_db ''alice'' = Some 6
   \<and> no_published_content LISTENING MIXED example_db
   \<and> fst (startExam example_env (Some ''Bearer tok-alice'') (Fields (LISTENING, MIXED)) example_db)
       = (503, ErrorBody ''No published listening audio available'')
   \<and> credits_of
        (snd (startExam example_env (Some ''Bearer tok-alice'') (Fields (LISTENING, MIXED))
           example_db)) ''alice'' = Some 7
   \<and> map ct_type (db_creditTransaction
        (snd (startExam example_env (Some ''Bearer tok-alice'') (Fields (LISTENING, MIXED))
           example_db))) = [GRANT, PURCHASE, USAGE_FAIL]"
  by code_simp

section \<open>Refunds\<close>

text \<open>Under a unique index on the payment reference the REFUND entry, which repeats the
  purchase's reference, can never be created: the refund transaction always throws.\<close>

lemma refund_tx_under_unique_index:
  assumes uq: "refUnique e"
    and tx: "creditTransaction_findUnique_id d i = Some tx"
    and p: "ct_stripePaymentIntentId tx = Some p"
  shows "\<exists>err. refund_tx e tx rid d = Inl err"
proof -
  have mem: "tx \<in> set (db_creditTransaction d)"
    using tx find_Some_iff [of "\<lambda>t. ct_id t = i" "db_creditTransaction d" tx]
    by (auto simp: creditTransaction_findUnique_id_def)
  have taken: "ref_taken (d0\<lparr>db_creditTransaction :=
        map (\<lambda>t. if ct_id t = j then t\<lparr>ct_reason := r\<rparr> else t) (db_creditTransaction d)\<rparr>) (Some p)"
    for d0 :: db and j r
  proof -
    let ?g = "\<lambda>t. if ct_id t = j then t\<lparr>ct_reason := r\<rparr> else t"
    have "?g tx \<in> set (map ?g (db_creditTransaction d))" using mem by simp
    moreover have "ct_stripePaymentIntentId (?g tx) = Some p" using p by simp
    ultimately show ?thesis
      unfolding ref_taken_def list_ex_iff by (simp del: set_map) blast
  qed
  show ?thesis
  proof (cases "user_update (ct_userId tx) (decrement_credits (ct_amount tx)) d")
    case (Inl err)
    then show ?thesis by (simp add: refund_tx_def)
  next
    case (Inr d1)
    then have d1: "db_creditTransaction d1 = db_creditTransaction d"
      by (auto simp: user_update_def split: if_splits)
    show ?thesis
    proof (cases "creditTransaction_update_reason (ct_id tx) (ct_reason tx @ '' - REFUNDED'') d1")
      case (Inl err)
      then show ?thesis using Inr by (simp add: refund_tx_def)
    next
      case r: (Inr d2)
      then have "d2 = d1\<lparr>db_creditTransaction :=
        map (\<lambda>t. if ct_id t = ct_id tx then t\<lparr>ct_reason := ct_reason tx @ '' - REFUNDED''\<rparr> else t)
          (db_creditTransaction d)\<rparr>"
        using d1 by (auto simp: creditTransaction_update_reason_def split: if_splits)
      with taken have "ref_taken d2 (Some p)" by simp
      then show ?thesis using Inr r uq p
        by (simp add: refund_tx_def creditTransaction_create_def)
    qed
  qed
qed

lemma map_filter_Cons:
  "List.map_filter f (x # xs) = (case f x of None \<Rightarrow> List.map_filter f xs | Some y \<Rightarrow> y # List.map_filter f xs)"
  by (simp add: List.map_filter_def split: option.splits)

lemma set_map_filter: "set (List.map_filter f xs) = {y. \<exists>x \<in> set xs. f x = Some y}"
  by (induction xs) (auto simp: map_filter_Cons List.map_filter_def split: option.splits)

lemma distinct_refs_same_row:
  "distinct (List.map_filter f xs) \<Longrightarrow> x \<in> set xs \<Longrightarrow> y \<in> set xs \<Longrightarrow>
     f x = Some p \<Longrightarrow> f y = Some p \<Longrightarrow> x = y"
proof (induction xs)
  case Nil
  then show ?case by simp
next
  case (Cons a xs)
  then show ?case
    by (auto simp: map_filter_Cons set_map_filter split: option.splits)
qed

text \<open>On a store whose payment references are unique, a PURCHASE entry never has a REFUND
  entry with its reference: the already-refunded answer cannot be reached.\<close>

lemma no_refund_entry_with_unique_refs:
  assumes "refs_unique d"
    and "creditTransaction_findUnique_id d i = Some tx"
    and "ct_type tx = PURCHASE"
    and "ct_stripePaymentIntentId tx = Some p"
  shows "creditTransaction_findFirst d (Some p) REFUND = None"
proof (rule ccontr)
  assume "creditTransaction_findFirst d (Some p) REFUND \<noteq> None"
  then obtain r where r: "creditTransaction_findFirst d (Some p) REFUND = Some r" by blast
  then have rin: "r \<in> set (db_creditTransaction d)" "ct_stripePaymentIntentId r = Some p"
    "ct_type r = REFUND"
    using find_Some_iff [of "\<lambda>t. ct_stripePaymentIntentId t = Some p \<and> ct_type t = REFUND"
        "db_creditTransaction d" r]
    by (auto simp: creditTransaction_findFirst_def)
  have tin: "tx \<in> set (db_creditTransaction d)"
    using assms(2) find_Some_iff [of "\<lambda>t. ct_id t = i" "db_creditTransaction d" tx]
    by (auto simp: creditTransaction_findUnique_id_def)
  from distinct_refs_same_row [OF assms(1) [unfolded refs_unique_def] rin(1) tin rin(2) assms(4)]
  have "r = tx" .
  with rin(3) assms(3) show False by simp
qed

lemma creditTransaction_create_keeps_refs_unique:
  assumes "refUnique e" and "refs_unique d" and "creditTransaction_create e row d = Inr d'"
  shows "refs_unique d'"
proof -
  from assms(3) have d': "d' = d\<lparr>db_creditTransaction := db_creditTransaction d @ [row]\<rparr>"
    and nt: "\<not> ref_taken d (ct_stripePaymentIntentId row)"
    using assms(1) by (auto simp: creditTransaction_create_def split: if_splits)
  show ?thesis
    using assms(2) nt unfolding d'
    by (auto simp: refs_unique_def List.map_filter_def ref_taken_def list_ex_iff
        split: option.splits)
qed

lemma user_update_Inr':
  "user_update uid f d = Inr d1 \<Longrightarrow> db_creditTransaction d1 = db_creditTransaction d"
  by (auto simp: user_update_def split: if_splits)

lemma refs_unique_cong:
  "db_creditTransaction d' = db_creditTransaction d \<Longrightarrow> refs_unique d' = refs_unique d"
  by (simp add: refs_unique_def)

lemma map_filter_reason:
  "List.map_filter ct_stripePaymentIntentId
     (map (\<lambda>t. if ct_id t = i then t\<lparr>ct_reason := r\<rparr> else t) xs)
   = List.map_filter ct_stripePaymentIntentId xs"
  by (induction xs) (auto simp: List.map_filter_def)

lemma update_reason_keeps_refs_unique:
  "refs_unique d \<Longrightarrow> creditTransaction_update_reason i r d = Inr d' \<Longrightarrow> refs_unique d'"
  by (auto simp: creditTransaction_update_reason_def refs_unique_def map_filter_reason
      split: if_splits)

lemma refs_unique_tx2:
  assumes "refUnique e" "refs_unique d"
    and "user_update uid f d = Inr d1" and "creditTransaction_create e row d1 = Inr d2"
  shows "refs_unique d2"
proof -
  from assms(2) user_update_Inr' [OF assms(3)] have "refs_unique d1"
    by (simp add: refs_unique_def)
  from creditTransaction_create_keeps_refs_unique [OF assms(1) this assms(4)] show ?thesis .
qed

lemma refs_unique_transaction:
  assumes "refs_unique d"
    and "\<And>r d'. callback d = Inr (r, d') \<Longrightarrow> refs_unique d'"
  shows "refs_unique (snd (transaction callback d))"
  using assms by (auto simp: transaction_def split: sum.splits)

lemma refs_unique_purchase_tx:
  "refUnique e \<Longrightarrow> refs_unique d \<Longrightarrow> purchase_tx e uid p pack d = Inr (u, d') \<Longrightarrow> refs_unique d'"
  by (auto simp: purchase_tx_def split: sum.splits elim: refs_unique_tx2)

lemma refs_unique_grant_tx:
  "refUnique e \<Longrightarrow> refs_unique d \<Longrightarrow> grant_tx e uid n r d = Inr (u, d') \<Longrightarrow> refs_unique d'"
  by (auto simp: grant_tx_def split: sum.splits elim: refs_unique_tx2)

lemma refs_unique_revoke_tx:
  "refUnique e \<Longrightarrow> refs_unique d \<Longrightarrow> revoke_tx e uid n r d = Inr (u, d') \<Longrightarrow> refs_unique d'"
  by (auto simp: revoke_tx_def split: sum.splits elim: refs_unique_tx2)

lemma refs_unique_startExam_tx:
  "refUnique e \<Longrightarrow> refs_unique d \<Longrightarrow> startExam_tx e user ty df d = Inr (r, d') \<Longrightarrow> refs_unique d'"
  by (auto simp: startExam_tx_def examHistory_create_def refs_unique_def
      split: sum.splits if_splits dest!: refs_unique_tx2 [unfolded refs_unique_def, rotated 2])

lemma refs_unique_restore_credit:
  "refUnique e \<Longrightarrow> refs_unique d \<Longrightarrow> refs_unique (restore_credit e uid d)"
  by (auto simp: restore_credit_def refs_unique_def user_update_Inr'
      split: sum.splits dest: refs_unique_tx2 [unfolded refs_unique_def, rotated 2])

lemma refs_unique_refund_tx:
  assumes "refUnique e" "refs_unique d" and tx: "refund_tx e t rid d = Inr (u, d')"
  shows "refs_unique d'"
proof -
  from tx obtain d1 d2 row where
    upd: "user_update (ct_userId t) (decrement_credits (ct_amount t)) d = Inr d1"
    and rsn: "creditTransaction_update_reason (ct_id t) (ct_reason t @ '' - REFUNDED'') d1 = Inr d2"
    and cre: "creditTransaction_create e row d2 = Inr d'"
    by (auto simp: refund_tx_def split: sum.splits)
  from assms(2) user_update_Inr' [OF upd] have "refs_unique d1" by (simp add: refs_unique_def)
  from update_reason_keeps_refs_unique [OF this rsn] have "refs_unique d2" .
  from creditTransaction_create_keeps_refs_unique [OF assms(1) this cre] show ?thesis .
qed

text \<open>So every handler that writes the ledger keeps the payment references unique when the
  index is there.\<close>

lemma refs_unique_preserved:
  assumes "refUnique e" and "refs_unique d"
  shows "refs_unique (snd (startExam e authHeader1 body1 d))
       \<and> refs_unique (snd (stripe_webhook e verified d))
       \<and> refs_unique (fst (snd (refund e authHeader3 transactionId d)))
       \<and> refs_unique (snd (grantCredits e authHeader4 body4 d))
       \<and> refs_unique (snd (revokeCredits e authHeader5 body5 d))"
proof -
  have p: "refs_unique (snd (transaction (purchase_tx e uid p pack) d))" for uid p pack
    using assms refs_unique_purchase_tx by (intro refs_unique_transaction) auto
  have g: "refs_unique (snd (transaction (grant_tx e uid n r) d))" for uid n r
    using assms refs_unique_grant_tx by (intro refs_unique_transaction) auto
  have v: "refs_unique (snd (transaction (revoke_tx e uid n r) d))" for uid n r
    using assms refs_unique_revoke_tx by (intro refs_unique_transaction) auto
  have s: "refs_unique (snd (transaction (startExam_tx e user ty df) d))" for user ty df
    using assms refs_unique_startExam_tx by (intro refs_unique_transaction) auto
  have rf: "refs_unique (snd (transaction (refund_tx e t rid) d))" for t rid
    using assms refs_unique_refund_tx by (intro refs_unique_transaction) auto
  have c: "refs_unique (snd (startExam_catch e a err d0))" if "refs_unique d0" for a err d0
    using that assms(1)
    by (auto simp: startExam_catch_def Let_def refs_unique_restore_credit split: option.splits)
  have h: "refs_unique (snd (handleCheckoutSessionCompleted e cs i d))" for cs i
    using assms(2)
    by (auto simp: handleCheckoutSessionCompleted_def transaction_throws p
        split: option.splits pack_lookup.splits)
  have 1: "refs_unique (snd (startExam e authHeader1 body1 d))"
    using assms(2) c [OF assms(2)] c [OF s]
    by (auto simp: startExam_def split_beta s split: option.splits parsed.splits sum.splits)
  have 2: "refs_unique (snd (stripe_webhook e verified d))"
    using assms(2) h
    by (auto simp: stripe_webhook_def split_beta split: option.splits sum.splits)
  have 3: "refs_unique (fst (snd (refund e authHeader3 transactionId d)))"
    using assms(2)
    by (auto simp: refund_def split_beta rf split: option.splits sum.splits)
  have 4: "refs_unique (snd (grantCredits e authHeader4 body4 d))"
    using assms(2)
    by (auto simp: grantCredits_def split_beta g split: option.splits parsed.splits sum.splits)
  have 5: "refs_unique (snd (revokeCredits e authHeader5 body5 d))"
    using assms(2)
    by (auto simp: revokeCredits_def split_beta v split: option.splits parsed.splits sum.splits)
  from 1 2 3 4 5 show ?thesis by blast
qed

lemma truthy_Some: "truthy s = Some v \<Longrightarrow> s = Some v"
  by (auto simp: truthy_def split: option.splits if_splits)

text \<open>With the index, an admin's refund of a PURCHASE entry with a payment reference calls
  the processor's reversal and then answers 500 with nothing recorded, whether the
  reversal or the ledger transaction is what failed. Nothing in the store tells a later
  call that the reversal took place.\<close>

lemma refund_under_unique_index:
  assumes "refUnique e" and "refs_unique d"
    and "bearer_token authHeader = Some accessToken"
    and "verifyAccessToken e accessToken = Some adminId"
    and "user_findUnique d adminId = Some adminUser"
    and "u_role adminUser = ''ADMIN''"
    and "transactionId \<noteq> []"
    and "creditTransaction_findUnique_id d transactionId = Some tx"
    and "ct_type tx = PURCHASE"
    and "truthy (ct_stripePaymentIntentId tx) = Some paymentIntent"
  shows "fst (fst (refund e authHeader transactionId d)) = 500
       \<and> snd (refund e authHeader transactionId d) = (d, [StripeRefund paymentIntent])"
proof -
  have ref: "ct_stripePaymentIntentId tx = Some paymentIntent"
    by (rule truthy_Some [OF assms(10)])
  have none: "creditTransaction_findFirst d (Some paymentIntent) REFUND = None"
    by (rule no_refund_entry_with_unique_refs [OF assms(2) assms(8) assms(9) ref])
  have fails: "\<exists>err. refund_tx e tx rid d = Inl err" for rid
    by (rule refund_tx_under_unique_index [OF assms(1) assms(8) ref])
  show ?thesis
  proof (cases "stripe_refunds_create e paymentIntent")
    case None
    then show ?thesis using assms none by (simp add: refund_def)
  next
    case (Some rid)
    from fails [of rid] obtain err where "refund_tx e tx rid d = Inl err" by blast
    then show ?thesis using assms none Some by (simp add: refund_def transaction_def)
  qed
qed


text \<open>
  Claim C6. When the processor's reversal fails, the refund handler answers 500
  \<^verbatim>\<open>Failed to process Stripe refund\<close> with the store as it was and the reversal as its only
  effect. In every run of the handler, a changed store means that the reversal was called
  first, succeeded, and was followed by exactly one commit.
\<close>

theorem refund_stripe_failure:
  assumes "bearer_token authHeader = Some accessToken"
    and "verifyAccessToken e accessToken = Some adminId"
    and "user_findUnique d adminId = Some adminUser"
    and "u_role adminUser = ''ADMIN''"
    and "transactionId \<noteq> []"
    and "creditTransaction_findUnique_id d transactionId = Some tx"
    and "ct_type tx = PURCHASE"
    and "truthy (ct_stripePaymentIntentId tx) = Some paymentIntent"
    and "creditTransaction_findFirst d (Some paymentIntent) REFUND = None"
    and "stripe_refunds_create e paymentIntent = None"
  shows "refund e authHeader transactionId d
           = ((500, ErrorBody ''Failed to process Stripe refund''), d,
              [StripeRefund paymentIntent])
       \<and> (\<forall>e' a' t' d'. fst (snd (refund e' a' t' d')) \<noteq> d' \<longrightarrow>
             (\<exists>p r. snd (snd (refund e' a' t' d')) = [StripeRefund p, Commit]
                \<and> stripe_refunds_create e' p = Some r))"
proof -
  have ord: "fst (snd (refund e' a' t' d')) \<noteq> d' \<longrightarrow>
             (\<exists>p r. snd (snd (refund e' a' t' d')) = [StripeRefund p, Commit]
                \<and> stripe_refunds_create e' p = Some r)" for e' a' t' d'
    by (auto simp: refund_def transaction_def split: option.splits sum.splits)
  show ?thesis using assms ord by (simp add: refund_def)
qed

theorem refund_stripe_failure_witness:
  "refund example_env_stripe_down (Some ''Bearer tok-root'') ''t2'' example_db
     = ((500, ErrorBody ''Failed to process Stripe refund''), example_db, [StripeRefund ''pi_xyz''])
   \<and> fst (snd (refund example_env (Some ''Bearer tok-root'') ''t2'' example_db)) \<noteq> example_db
   \<and> snd (snd (refund example_env (Some ''Bearer tok-root'') ''t2'' example_db))
     = [StripeRefund ''pi_xyz'', Commit]"
proof -
  have p1: "bearer_token (Some ''Bearer tok-root'') = Some ''tok-root''" by code_simp
  have p2: "verifyAccessToken example_env_stripe_down ''tok-root'' = Some ''root''" by code_simp
  have p3: "user_findUnique example_db ''root''
     = Some \<lparr>u_id = ''root'', u_email = ''root@example.com'', u_role = ''ADMIN'', u_credits = 0\<rparr>"
    by code_simp
  have p4: "u_role \<lparr>u_id = ''root'', u_email = ''root@example.com'', u_role = ''ADMIN'',
                    u_credits = 0\<rparr> = ''ADMIN''" by simp
  have p5: "''t2'' \<noteq> []" by simp
  have p6: "creditTransaction_findUnique_id example_db ''t2''
     = Some \<lparr>ct_id = ''t2'', ct_userId = ''alice'', ct_amount = 5, ct_type = PURCHASE,
             ct_stripePaymentIntentId = Some ''pi_xyz'',
             ct_reason = ''Purchased Pack B - Standard''\<rparr>" by code_simp
  have p7: "ct_type \<lparr>ct_id = ''t2'', ct_userId = ''alice'', ct_amount = 5, ct_type = PURCHASE,
             ct_stripePaymentIntentId = Some ''pi_xyz'',
             ct_reason = ''Purchased Pack B - Standard''\<rparr> = PURCHASE" by simp
  have p8: "truthy (ct_stripePaymentIntentId
             \<lparr>ct_id = ''t2'', ct_userId = ''alice'', ct_amount = 5, ct_type = PURCHASE,
              ct_stripePaymentIntentId = Some ''pi_xyz'',
              ct_reason = ''Purchased Pack B - Standard''\<rparr>) = Some ''pi_xyz''"
    by (simp add: truthy_def)
  have p9: "creditTransaction_findFirst example_db (Some ''pi_xyz'') REFUND = None" by code_simp
  have p10: "stripe_refunds_create example_env_stripe_down ''pi_xyz'' = None" by code_simp
  note failure = refund_stripe_failure [OF p1 p2 p3 p4 p5 p6 p7 p8 p9 p10]
  have changed:
    "fst (snd (refund example_env (Some ''Bearer tok-root'') ''t2'' example_db)) \<noteq> example_db"
    by code_simp
  from failure changed obtain p r where
    "snd (snd (refund example_env (Some ''Bearer tok-root'') ''t2'' example_db))
       = [StripeRefund p, Commit]" by blast
  moreover have "hd (snd (snd (refund example_env (Some ''Bearer tok-root'') ''t2'' example_db)))
       = StripeRefund ''pi_xyz''" by code_simp
  ultimately have effs:
    "snd (snd (refund example_env (Some ''Bearer tok-root'') ''t2'' example_db))
       = [StripeRefund ''pi_xyz'', Commit]" by simp
  from failure changed effs show ?thesis by blast
qed

section \<open>Submitting an exam\<close>

lemma exam_find_after_map:
  assumes "\<And>h. eh_id (f h) = eh_id h"
  shows "find (\<lambda>h. eh_id h = i) (map (\<lambda>h. if eh_id h = i then f h else h) xs)
           = map_option f (find (\<lambda>h. eh_id h = i) xs)"
  using assms by (induction xs) auto

lemma examHistory_update_found:
  assumes "examHistory_findUnique d i = Some h" and "\<And>x. eh_id (f x) = eh_id x"
  shows "examHistory_update i f d
           = Inr (d\<lparr>db_examHistory := map (\<lambda>h. if eh_id h = i then f h else h) (db_examHistory d)\<rparr>)"
    and "examHistory_findUnique
           (d\<lparr>db_examHistory := map (\<lambda>h. if eh_id h = i then f h else h) (db_examHistory d)\<rparr>) i
           = Some (f h)"
  using assms
  by (simp_all add: examHistory_update_def examHistory_findUnique_def exam_find_after_map)

text \<open>
  Claim C7. For an authenticated caller and a well-formed body, the submit handler answers
  404 \<^verbatim>\<open>Exam not found\<close> when no session has the id, 403 when the session belongs to another
  user, and 400 \<^verbatim>\<open>Exam already submitted\<close> when the caller's session is already COMPLETED;
  in each case, the last in particular, the store (stored score and answers included) is
  left as it was.
\<close>

theorem submitExam_rejections:
  assumes "bearer_token authHeader = Some accessToken"
    and "verifyAccessToken e accessToken = Some userId"
    and "submitExamSchema (examId, answers, timeSpent)"
  shows "(examHistory_findUnique d examId = None \<longrightarrow>
            submitExam e authHeader (Fields (examId, answers, timeSpent)) d
              = ((404, ErrorBody ''Exam not found''), d))
       \<and> (\<forall>h. examHistory_findUnique d examId = Some h \<and> eh_userId h \<noteq> userId \<longrightarrow>
            submitExam e authHeader (Fields (examId, answers, timeSpent)) d
              = ((403, ErrorBody ''Forbidden: You do not own this exam''), d))
       \<and> (\<forall>h. examHistory_findUnique d examId = Some h \<and> eh_userId h = userId
              \<and> eh_status h = COMPLETED \<longrightarrow>
            submitExam e authHeader (Fields (examId, answers, timeSpent)) d
              = ((400, ErrorBody ''Exam already submitted''), d))"
  using assms by (simp add: submitExam_def)

theorem submitExam_rejections_witness:
  "submitExam example_env (Some ''Bearer tok-alice'') (Fields (''nope'', [], None)) example_db
     = ((404, ErrorBody ''Exam not found''), example_db)
   \<and> submitExam example_env (Some ''Bearer tok-bob'') (Fields (''e1'', [], None)) example_db
     = ((403, ErrorBody ''Forbidden: You do not own this exam''), example_db)
   \<and> map_option eh_status (examHistory_findUnique example_db ''e2'') = Some COMPLETED
   \<and> submitExam example_env (Some ''Bearer tok-alice'')
       (Fields (''e2'', [(''q1'', JArr [JStr ''paris'', JStr ''france''])], None)) example_db
     = ((400, ErrorBody ''Exam already submitted''), example_db)"
proof -
  have alice: "bearer_token (Some ''Bearer tok-alice'') = Some ''tok-alice''"
    "verifyAccessToken example_env ''tok-alice'' = Some ''alice''" by code_simp+
  have bob: "bearer_token (Some ''Bearer tok-bob'') = Some ''tok-bob''"
    "verifyAccessToken example_env ''tok-bob'' = Some ''bob''" by code_simp+
  have s1: "submitExamSchema (''nope'', [], None)"
    and s2: "submitExamSchema (''e1'', [], None)"
    and s3: "submitExamSchema (''e2'', [(''q1'', JArr [JStr ''paris'', JStr ''france''])], None)"
    by (simp_all add: submitExamSchema_def)
  have f1: "examHistory_findUnique example_db ''nope'' = None" by code_simp
  obtain h1 where f2: "examHistory_findUnique example_db ''e1'' = Some h1"
    and o2: "eh_userId h1 = ''alice''"
    by (simp add: examHistory_findUnique_def example_db_def)
  obtain h2 where f3: "examHistory_findUnique example_db ''e2'' = Some h2"
    and o3: "eh_userId h2 = ''alice''" and c3: "eh_status h2 = COMPLETED"
    by (simp add: examHistory_findUnique_def example_db_def)
  from submitExam_rejections [OF alice s1, of example_db] f1
  have a: "submitExam example_env (Some ''Bearer tok-alice'') (Fields (''nope'', [], None)) example_db
     = ((404, ErrorBody ''Exam not found''), example_db)" by blast
  from submitExam_rejections [OF bob s2, of example_db] f2 o2
  have b: "submitExam example_env (Some ''Bearer tok-bob'') (Fields (''e1'', [], None)) example_db
     = ((403, ErrorBody ''Forbidden: You do not own this exam''), example_db)" by simp
  from submitExam_rejections [OF alice s3, of example_db] f3 o3 c3
  have c: "submitExam example_env (Some ''Bearer tok-alice'')
       (Fields (''e2'', [(''q1'', JArr [JStr ''paris'', JStr ''france''])], None)) example_db
     = ((400, ErrorBody ''Exam already submitted''), example_db)" by simp
  from a b c f3 c3 show ?thesis by simp
qed

text \<open>A submission that was accepted leaves the session COMPLETED, so a second submission of
  the same session by the same caller is rejected and changes nothing.\<close>

lemma submitExam_second_call:
  assumes tok: "bearer_token authHeader = Some accessToken"
    "verifyAccessToken e accessToken = Some userId"
    and first: "fst (fst (submitExam e authHeader (Fields (examId, answers, timeSpent)) d)) = 200"
    and schema: "submitExamSchema (examId, answers', timeSpent')"
  shows "submitExam e authHeader (Fields (examId, answers', timeSpent'))
           (snd (submitExam e authHeader (Fields (examId, answers, timeSpent)) d))
         = ((400, ErrorBody ''Exam already submitted''),
            snd (submitExam e authHeader (Fields (examId, answers, timeSpent)) d))"
proof -
  let ?d' = "snd (submitExam e authHeader (Fields (examId, answers, timeSpent)) d)"
  from first tok obtain h where h: "examHistory_findUnique d examId = Some h"
    "eh_userId h = userId" "eh_status h \<noteq> COMPLETED"
    and ok: "submitExamSchema (examId, answers, timeSpent)"
    by (auto simp: submitExam_def split: option.splits if_splits)
  from tok h ok have "\<exists>h'. examHistory_findUnique ?d' examId = Some h'
      \<and> eh_userId h' = userId \<and> eh_status h' = COMPLETED"
    by (simp add: submitExam_def Let_def examHistory_update_found)
  then show ?thesis
    using tok schema by (auto simp: submitExam_def)
qed

section \<open>Fallback grading of a writing exam\<close>

text \<open>The word count of a text: the number of its words, whatever white space separates and
  surrounds them; a text without any word counts as one.\<close>

lemma space_runs_word:
  assumes "js_word w"
  shows "space_runs b (w @ xs) = space_runs False xs"
proof -
  have "list_all (\<lambda>c. \<not> js_space c) v \<Longrightarrow> v \<noteq> [] \<Longrightarrow> space_runs b (v @ xs) = space_runs False xs"
    for v b
  proof (induction v arbitrary: b)
    case Nil
    then show ?case by simp
  next
    case (Cons c v)
    then show ?case by (cases v) auto
  qed
  with assms show ?thesis by (simp add: js_word_def)
qed

lemma space_runs_blank_True:
  "js_blank s \<Longrightarrow> space_runs True (s @ xs) = space_runs True xs"
  by (induction s) (auto simp: js_blank_def)

lemma space_runs_blank_False:
  "js_blank s \<Longrightarrow> s \<noteq> [] \<Longrightarrow> space_runs False (s @ xs) = 1 + space_runs True xs"
  by (cases s) (auto simp: js_blank_def space_runs_blank_True [unfolded js_blank_def])

lemma space_runs_spaced_words:
  "separated rest \<Longrightarrow> space_runs False (spaced_words rest) = length rest"
proof (induction rest)
  case Nil
  then show ?case by (simp add: spaced_words_def)
next
  case (Cons sw rest)
  then have s: "fst sw \<noteq> []" "js_blank (fst sw)" and w: "js_word (snd sw)"
    and r: "separated rest"
    by (simp_all add: separated_def)
  have "space_runs False (spaced_words (sw # rest))
          = space_runs False (fst sw @ (snd sw @ spaced_words rest))"
    by (simp add: spaced_words_def)
  also have "\<dots> = 1 + space_runs True (snd sw @ spaced_words rest)"
    by (rule space_runs_blank_False [OF s(2) s(1)])
  also have "\<dots> = 1 + space_runs False (spaced_words rest)"
    by (simp add: space_runs_word [OF w])
  finally show ?case using Cons.IH [OF r] by simp
qed

lemma spaced_words_ends:
  "separated rest \<Longrightarrow> rest \<noteq> [] \<Longrightarrow>
     spaced_words rest \<noteq> [] \<and> \<not> js_space (last (spaced_words rest))"
proof (induction rest)
  case Nil
  then show ?case by simp
next
  case (Cons sw rest)
  then have w: "js_word (snd sw)" and r: "separated rest" by (simp_all add: separated_def)
  show ?case
  proof (cases "rest = []")
    case True
    then show ?thesis using w
      by (auto simp: spaced_words_def js_word_def list_all_iff)
  next
    case False
    with Cons.IH [OF r] show ?thesis
      by (simp add: spaced_words_def)
  qed
qed

lemma body_ends:
  assumes "js_word w" "separated rest"
  shows "\<not> js_space (last (w @ spaced_words rest))"
proof (cases "rest = []")
  case True
  then show ?thesis using assms(1) by (auto simp: spaced_words_def js_word_def list_all_iff)
next
  case False
  with spaced_words_ends [OF assms(2)] show ?thesis by simp
qed

lemma trim_body:
  assumes lead: "js_blank lead" and trail: "js_blank trail"
    and first: "body \<noteq> []" "\<not> js_space (hd body)" and lst: "\<not> js_space (last body)"
  shows "trim (lead @ body @ trail) = body"
proof -
  have "\<And>x. x \<in> set lead \<Longrightarrow> js_space x"
    using lead by (simp add: js_blank_def list_all_iff)
  then have "dropWhile js_space (lead @ body @ trail) = dropWhile js_space (body @ trail)"
    by (rule dropWhile_append2)
  also have "\<dots> = body @ trail"
    using first by (cases body) auto
  finally have a: "dropWhile js_space (lead @ body @ trail) = body @ trail" .
  have b: "dropWhile js_space (rev trail @ rev body) = rev body"
  proof -
    have "\<And>x. x \<in> set (rev trail) \<Longrightarrow> js_space x"
      using trail by (simp add: js_blank_def list_all_iff)
    then have "dropWhile js_space (rev trail @ rev body) = dropWhile js_space (rev body)"
      by (rule dropWhile_append2)
    also have "\<dots> = rev body"
      using first(1) lst by (cases body rule: rev_cases) auto
    finally show ?thesis .
  qed
  show ?thesis by (simp add: trim_def a b)
qed

lemma wordCount_of_words:
  assumes "js_blank lead" "js_blank trail" "js_word w" "separated rest"
  shows "wordCount_of (lead @ w @ spaced_words rest @ trail) = 1 + length rest"
proof -
  let ?body = "w @ spaced_words rest"
  have ne: "?body \<noteq> []" using assms(3) by (simp add: js_word_def)
  have hd: "\<not> js_space (hd ?body)" using assms(3) by (cases w) (auto simp: js_word_def)
  have "trim (lead @ ?body @ trail) = ?body"
    by (rule trim_body [OF assms(1,2) ne hd body_ends [OF assms(3,4)]])
  then have "wordCount_of (lead @ w @ spaced_words rest @ trail)
               = 1 + space_runs False (w @ spaced_words rest)"
    by (simp add: wordCount_of_def)
  also have "\<dots> = 1 + length rest"
    by (simp add: space_runs_word [OF assms(3)] space_runs_spaced_words [OF assms(4)])
  finally show ?thesis .
qed

lemma wordCount_of_blank: "js_blank s \<Longrightarrow> wordCount_of s = 1"
proof -
  assume "js_blank s"
  then have e: "dropWhile js_space s = []" by (simp add: js_blank_def list_all_iff)
  show ?thesis by (simp add: wordCount_of_def trim_def e)
qed

text \<open>The fallback estimate as a table of word-count thresholds per task type.\<close>

lemma estimatedScore_table:
  "estimatedScore n TASK_1
     = (if n < 150 then 5 else if n < 250 then 6 else if n < 300 then 13 / 2 else 7)"
  "estimatedScore n TASK_2
     = (if n < 250 then 5 else if n < 300 then 6 else if n < 350 then 13 / 2 else 7)"
  by (simp_all add: estimatedScore_def)

text \<open>The handler's answer and stored row for any text, in terms of the text's word count.\<close>

lemma submitWriting_fallback_any_text:
  assumes "bearer_token authHeader = Some accessToken"
    and "verifyAccessToken e accessToken = Some userId"
    and "submitWritingSchema (examId, userText, timeSpent)"
    and "examHistory_findUnique d examId = Some h"
    and "eh_userId h = userId"
    and "eh_status h \<noteq> COMPLETED"
    and "eh_examType h = WRITING"
    and "prompt_of (eh_jsonData h) = Some prompt"
    and "gradeWritingEssay e (pv_taskType prompt) (pv_topic prompt) userText timeSpent = None"
  shows "fst (submitWriting e authHeader (Fields (examId, userText, timeSpent)) d)
           = (200, WritingGraded (estimatedScore (wordCount_of userText) (pv_taskType prompt))
                     (WritingScores (estimatedScore (wordCount_of userText) (pv_taskType prompt))
                        (estimatedScore (wordCount_of userText) (pv_taskType prompt))
                        (estimatedScore (wordCount_of userText) (pv_taskType prompt))
                        (estimatedScore (wordCount_of userText) (pv_taskType prompt))
                        (wordCount_of userText) timeSpent)
                     (wr_feedback (fallbackResult (wordCount_of userText) (pv_taskType prompt)))
                     (wr_improvedAnswerExample
                        (fallbackResult (wordCount_of userText) (pv_taskType prompt)))
                     \<lparr>gc_inputTokens = 0, gc_outputTokens = 0, gc_cost = 0\<rparr> examId)
       \<and> map_option (\<lambda>x. (eh_status x, eh_score x, eh_aiCost x))
           (examHistory_findUnique
              (snd (submitWriting e authHeader (Fields (examId, userText, timeSpent)) d)) examId)
           = Some (COMPLETED, Some (estimatedScore (wordCount_of userText) (pv_taskType prompt)),
                   Some 0)"
  using assms
  by (simp add: submitWriting_def gradeWritingEssayWithFallback_def Let_def
      examHistory_update_found fallbackResult_def)

text \<open>
  Claim C9. When \<^verbatim>\<open>gradeWritingEssay\<close> throws on an otherwise acceptable writing submission
  whose text has \<open>1 + length rest\<close> words, the handler still answers 200; the score and the
  four sub-scores are the estimate for that number of words and the prompt's task type
  (5 below the first threshold, then 6, 6.5 and 7 from 150, 250 and 300 words for task 1
  and from 250, 300 and 350 words for task 2), the recorded cost is zero, and the stored
  session is COMPLETED with that score and an AI cost of 0.
\<close>

theorem submitWriting_fallback:
  assumes "bearer_token authHeader = Some accessToken"
    and "verifyAccessToken e accessToken = Some userId"
    and "submitWritingSchema (examId, userText, timeSpent)"
    and "examHistory_findUnique d examId = Some h"
    and "eh_userId h = userId"
    and "eh_status h \<noteq> COMPLETED"
    and "eh_examType h = WRITING"
    and "prompt_of (eh_jsonData h) = Some prompt"
    and "gradeWritingEssay e (pv_taskType prompt) (pv_topic prompt) userText timeSpent = None"
    and "userText = lead @ w @ spaced_words rest @ trail"
    and "js_blank lead" and "js_blank trail" and "js_word w" and "separated rest"
  shows "fst (submitWriting e authHeader (Fields (examId, userText, timeSpent)) d)
           = (200, WritingGraded (estimatedScore (1 + length rest) (pv_taskType prompt))
                     (WritingScores (estimatedScore (1 + length rest) (pv_taskType prompt))
                        (estimatedScore (1 + length rest) (pv_taskType prompt))
                        (estimatedScore (1 + length rest) (pv_taskType prompt))
                        (estimatedScore (1 + length rest) (pv_taskType prompt))
                        (1 + length rest) timeSpent)
                     (wr_feedback (fallbackResult (1 + length rest) (pv_taskType prompt)))
                     (wr_improvedAnswerExample
                        (fallbackResult (1 + length rest) (pv_taskType prompt)))
                     \<lparr>gc_inputTokens = 0, gc_outputTokens = 0, gc_cost = 0\<rparr> examId)
       \<and> map_option (\<lambda>x. (eh_status x, eh_score x, eh_aiCost x))
           (examHistory_findUnique
              (snd (submitWriting e authHeader (Fields (examId, userText, timeSpent)) d)) examId)
           = Some (COMPLETED, Some (estimatedScore (1 + length rest) (pv_taskType prompt)),
                   Some 0)
       \<and> (\<forall>n. estimatedScore n TASK_1
             = (if n < 150 then 5 else if n < 250 then 6 else if n < 300 then 13 / 2 else 7))
       \<and> (\<forall>n. estimatedScore n TASK_2
             = (if n < 250 then 5 else if n < 300 then 6 else if n < 350 then 13 / 2 else 7))"
proof -
  have wc: "wordCount_of userText = 1 + length rest"
    unfolding assms(10) by (rule wordCount_of_words [OF assms(11-14)])
  from submitWriting_fallback_any_text [OF assms(1-9)] show ?thesis
    unfolding wc by (simp add: estimatedScore_table)
qed


theorem submitWriting_fallback_witness:
  "(let stored = (\<lambda>d k. map_option (\<lambda>x. (eh_status x, eh_score x, eh_aiCost x))
         (examHistory_findUnique
            (snd (submitWriting example_env (Some ''Bearer tok-alice'')
                    (Fields (''e1'', example_essay k, Some 35)) d)) ''e1''))
    in stored example_db 248 = Some (COMPLETED, Some 5, Some 0)
     \<and> stored example_db 249 = Some (COMPLETED, Some 6, Some 0)
     \<and> stored example_db 299 = Some (COMPLETED, Some (13 / 2), Some 0)
     \<and> stored example_db 349 = Some (COMPLETED, Some 7, Some 0)
     \<and> stored example_db_task1 148 = Some (COMPLETED, Some 5, Some 0)
     \<and> stored example_db_task1 149 = Some (COMPLETED, Some 6, Some 0)
     \<and> stored example_db_task1 249 = Some (COMPLETED, Some (13 / 2), Some 0)
     \<and> stored example_db_task1 299 = Some (COMPLETED, Some 7, Some 0))
   \<and> fst (fst (submitWriting example_env (Some ''Bearer tok-alice'')
                  (Fields (''e1'', example_essay 249, Some 35)) example_db)) = 200
   \<and> (case snd (fst (submitWriting example_env (Some ''Bearer tok-alice'')
                        (Fields (''e1'', example_mixed_text, None)) example_db)) of
        WritingGraded score subScores feedback improved cost examId \<Rightarrow>
          score = 5 \<and> subScores = WritingScores 5 5 5 5 4 None
          \<and> cost = \<lparr>gc_inputTokens = 0, gc_outputTokens = 0, gc_cost = 0\<rparr>
      | _ \<Rightarrow> False)"
proof -
  have p1: "bearer_token (Some ''Bearer tok-alice'') = Some ''tok-alice''" by code_simp
  have p2: "verifyAccessToken example_env ''tok-alice'' = Some ''alice''" by code_simp
  have p3: "submitWritingSchema (''e1'', example_essay k, Some 35)" for k
    by (simp add: submitWritingSchema_def example_essay_def)
  obtain h where p4: "examHistory_findUnique example_db ''e1'' = Some h"
    and p5: "eh_userId h = ''alice''" and p6: "eh_status h \<noteq> COMPLETED"
    and p7: "eh_examType h = WRITING" and p8: "prompt_of (eh_jsonData h) = Some example_prompt"
    by (simp add: examHistory_findUnique_def example_db_def prompt_of_def)
  obtain h1 where q4: "examHistory_findUnique example_db_task1 ''e1'' = Some h1"
    and q5: "eh_userId h1 = ''alice''" and q6: "eh_status h1 \<noteq> COMPLETED"
    and q7: "eh_examType h1 = WRITING"
    and q8: "prompt_of (eh_jsonData h1) = Some (example_prompt\<lparr>pv_taskType := TASK_1\<rparr>)"
    by (simp add: examHistory_findUnique_def example_db_task1_def example_db_def prompt_of_def)
  have p9: "gradeWritingEssay example_env tt topic (example_essay k) (Some 35) = None"
    for tt topic k
    by (simp add: example_env_def)
  have shape: "example_essay k = [] @ ''word'' @ spaced_words (replicate k ('' '', ''word'')) @ []"
    for k by (simp add: example_essay_def)
  have blank: "js_blank []" by (simp add: js_blank_def)
  have word: "js_word ''word''" by code_simp
  have sp: "js_blank '' ''" by code_simp
  have sep: "separated (replicate k ('' '', ''word''))" for k
    using word sp by (simp add: separated_def list_all_iff)
  have t2: "map_option (\<lambda>x. (eh_status x, eh_score x, eh_aiCost x))
         (examHistory_findUnique
            (snd (submitWriting example_env (Some ''Bearer tok-alice'')
                    (Fields (''e1'', example_essay k, Some 35)) example_db)) ''e1'')
        = Some (COMPLETED, Some (estimatedScore (1 + k) TASK_2), Some 0)" for k
    using submitWriting_fallback [OF p1 p2 p3 p4 p5 p6 p7 p8 p9 shape blank blank word sep, of k,
        THEN conjunct2, THEN conjunct1]
    by (simp add: example_prompt_def)
  have t1: "map_option (\<lambda>x. (eh_status x, eh_score x, eh_aiCost x))
         (examHistory_findUnique
            (snd (submitWriting example_env (Some ''Bearer tok-alice'')
                    (Fields (''e1'', example_essay k, Some 35)) example_db_task1)) ''e1'')
        = Some (COMPLETED, Some (estimatedScore (1 + k) TASK_1), Some 0)" for k
    using submitWriting_fallback [OF p1 p2 p3 q4 q5 q6 q7 q8 p9 shape blank blank word sep, of k,
        THEN conjunct2, THEN conjunct1]
    by simp
  have ok: "fst (fst (submitWriting example_env (Some ''Bearer tok-alice'')
                  (Fields (''e1'', example_essay 249, Some 35)) example_db)) = 200"
    using submitWriting_fallback [OF p1 p2 p3 p4 p5 p6 p7 p8 p9 shape blank blank word sep, of 249,
        THEN conjunct1]
    by simp
  have m3: "submitWritingSchema (''e1'', example_mixed_text, None)"
    by (simp add: submitWritingSchema_def example_mixed_text_def)
  have m9: "gradeWritingEssay example_env tt topic example_mixed_text None = None" for tt topic
    by (simp add: example_env_def)
  have mshape: "example_mixed_text
      = [CHR 0x20, CHR 0x09] @ ''one''
        @ spaced_words [([CHR 0x09], ''two''), ([CHR 0x0A, CHR 0x0D], ''three''),
                        ([CHR 0x0B, CHR 0x0C, CHR 0xA0], ''four'')]
        @ [CHR 0x0A]"
    by (simp add: example_mixed_text_def spaced_words_def)
  have ml: "js_blank [CHR 0x20, CHR 0x09]" and mt: "js_blank [CHR 0x0A]"
    and mw: "js_word ''one''"
    and ms: "separated [([CHR 0x09], ''two''), ([CHR 0x0A, CHR 0x0D], ''three''),
                        ([CHR 0x0B, CHR 0x0C, CHR 0xA0], ''four'')]"
    by code_simp+
  have mixed: "(case snd (fst (submitWriting example_env (Some ''Bearer tok-alice'')
                        (Fields (''e1'', example_mixed_text, None)) example_db)) of
        WritingGraded score subScores feedback improved cost examId \<Rightarrow>
          score = 5 \<and> subScores = WritingScores 5 5 5 5 4 None
          \<and> cost = \<lparr>gc_inputTokens = 0, gc_outputTokens = 0, gc_cost = 0\<rparr>
      | _ \<Rightarrow> False)"
    using submitWriting_fallback [OF p1 p2 m3 p4 p5 p6 p7 p8 m9 mshape ml mt mw ms,
        THEN conjunct1]
    by (simp add: example_prompt_def estimatedScore_def)
  show ?thesis
    unfolding Let_def t1 t2 using ok mixed by (simp add: estimatedScore_def)
qed

section \<open>The account toggle\<close>

lemma map_if_same: "map (\<lambda>u. if P u then u else u) xs = xs"
  by (induction xs) auto

text \<open>
  Claim C10. For an admin caller, an existing target user and either value of the
  \<^verbatim>\<open>disabled\<close> flag, the toggle handler answers 201
  \<^verbatim>\<open>Account status updated successfully\<close> and the store, the target's user row included,
  is exactly as before.
\<close>

theorem toggleAccount_updates_nothing:
  assumes "verifyAdminAccess e authHeader d = Some admin"
    and "user_findUnique d userId = Some user"
    and "userId \<noteq> []"
  shows "toggleAccount e authHeader (Fields (userId, disabled)) d
           = ((201, MessageBody ''Account status updated successfully''), d)"
  using assms
  by (simp add: toggleAccount_def toggleAccountSchema_def user_update_def map_if_same
      Suc_le_eq)

theorem toggleAccount_updates_nothing_witness:
  "toggleAccount example_env (Some ''Bearer tok-root'') (Fields (''alice'', True)) example_db
     = ((201, MessageBody ''Account status updated successfully''), example_db)
   \<and> toggleAccount example_env (Some ''Bearer tok-root'') (Fields (''alice'', False)) example_db
     = ((201, MessageBody ''Account status updated successfully''), example_db)"
proof -
  have p1: "verifyAdminAccess example_env (Some ''Bearer tok-root'') example_db
     = Some \<lparr>u_id = ''root'', u_email = ''root@example.com'', u_role = ''ADMIN'', u_credits = 0\<rparr>"
    by code_simp
  have p2: "user_findUnique example_db ''alice''
     = Some \<lparr>u_id = ''alice'', u_email = ''alice@example.com'', u_role = ''USER'', u_credits = 6\<rparr>"
    by code_simp
  have p3: "''alice'' \<noteq> []" by simp
  from toggleAccount_updates_nothing [OF p1 p2 p3, of True]
    toggleAccount_updates_nothing [OF p1 p2 p3, of False]
  show ?thesis by simp
qed

end
